theory Spec2Isabelle
  imports Main "HOL-Library.Word"
begin

unbundle bit_operations_syntax

section \<open>Shared memory objects of the kernel (core/hle/kernel/shared_memory.cpp)\<close>

text \<open>
  The file embeds \<^verbatim>\<open>SharedMemory::~SharedMemory\<close>, \<^verbatim>\<open>KernelSystem::CreateSharedMemory\<close>,
  \<^verbatim>\<open>KernelSystem::CreateSharedMemoryForApplet\<close>, \<^verbatim>\<open>SharedMemory::Map\<close> and
  \<^verbatim>\<open>SharedMemory::ConvertPermissions\<close>. Machine integers are 32-bit words, so every
  addition and comparison wraps and compares as the C++ does. Calls of the logger are
  left out: they do not touch the state modelled here.
\<close>

subsection \<open>Data\<close>

type_synonym u8 = "8 word"
type_synonym u32 = "32 word"
type_synonym VAddr = u32
type_synonym MemoryPermission = u32
type_synonym VMAPermission = u32
type_synonym pid = nat

text \<open>An interval of the allocator's interval set: lower and upper bound, right-open.\<close>
type_synonym Interval = "u32 \<times> u32"

text \<open>A backing block: a position in FCRAM (the pointer) and a length.\<close>
type_synonym block = "nat \<times> u32"

text \<open>
  Modelled from the spec: the error kinds of section 7 (errors.h is outside the sources).
  \<open>ERR_OTHER\<close> stands for any further code a collaborator may return.
\<close>
datatype ResultCode =
    RESULT_SUCCESS
  | ERR_INVALID_COMBINATION
  | ERR_WRONG_PERMISSION
  | ERR_INVALID_ADDRESS
  | ERR_INVALID_ADDRESS_STATE
  | ERR_OTHER nat

text \<open>
  The ways in which a call does not return: a failed \<^verbatim>\<open>ASSERT\<close>, the use of a null
  process pointer, and the use of the end iterator of the map of areas.
\<close>
datatype fault = AssertionFailed | NullDereference | InvalidIterator

text \<open>
  Modelled from the spec: the enumerations of the headers, of which the source names
  \<^verbatim>\<open>VMAType::Free\<close>, the memory states Private, Shared and Locked, and the region SYSTEM.
\<close>
datatype VMAType = Free | AllocatedMemoryBlock | BackingMemory | MMIO
datatype MemoryState = Private | Shared | Locked | OtherState nat
datatype MemoryRegion = APPLICATION | SYSTEM | BASE

record VirtualMemoryArea =
  type_vma :: VMAType
  base_vma :: VAddr
  size_vma :: u32

text \<open>
  The constants of core/memory.h, shared_memory.h and vm_manager.h that the source uses.
  Their declarations are outside the sources, so they are parameters of the model.
\<close>
record platform =
  HEAP_VADDR :: VAddr
  SHARED_MEMORY_VADDR_END :: VAddr
  LINEAR_HEAP_VADDR :: VAddr
  DontCare :: MemoryPermission
  ReadWriteExecute :: MemoryPermission
  VMAPermission_None :: VMAPermission
  VMAPermission_ReadWrite :: VMAPermission

text \<open>
  The operations of the collaborators that the source calls: the address space manager
  of a process (\<open>'vm\<close>, with area handles \<open>'h\<close>) and the allocator of a physical region
  (\<open>'mr\<close>). Their code is outside the sources, so they are parameters of the model.
  \<open>ChangeMemoryState\<close> returns its result code and the address space it leaves.
\<close>
record ('vm, 'h, 'mr) collaborators =
  FindVMA :: "'vm \<Rightarrow> VAddr \<Rightarrow> VirtualMemoryArea option"
  MapBackingMemory :: "'vm \<Rightarrow> VAddr \<Rightarrow> nat \<Rightarrow> u32 \<Rightarrow> MemoryState \<Rightarrow> ResultCode + ('h \<times> 'vm)"
  Reprotect :: "'vm \<Rightarrow> 'h \<Rightarrow> VMAPermission \<Rightarrow> 'vm"
  ChangeMemoryState :: "'vm \<Rightarrow> VAddr \<Rightarrow> u32 \<Rightarrow> MemoryState \<Rightarrow> VMAPermission
                          \<Rightarrow> MemoryState \<Rightarrow> VMAPermission \<Rightarrow> ResultCode \<times> 'vm"
  GetBackingBlocksForRange :: "'vm \<Rightarrow> VAddr \<Rightarrow> u32 \<Rightarrow> ResultCode + block list"
  LinearAllocate :: "'mr \<Rightarrow> u32 \<Rightarrow> (u32 \<times> 'mr) option"
  HeapAllocate :: "'mr \<Rightarrow> u32 \<Rightarrow> Interval list \<times> 'mr"
  Free_region :: "'mr \<Rightarrow> u32 \<Rightarrow> u32 \<Rightarrow> 'mr"

record 'vm process =
  vm_manager :: 'vm
  memory_used :: u32

text \<open>
  The kernel: its processes (a process pointer is a \<open>pid\<close>, the null pointer is \<open>None\<close>,
  and a pointer that is not null is taken to point to a process), the allocator of each
  region, which \<^verbatim>\<open>GetMemoryRegion\<close> looks up, and the bytes of FCRAM.
\<close>
record ('vm, 'mr) kernel =
  processes :: "pid \<Rightarrow> 'vm process"
  memory_regions :: "MemoryRegion \<Rightarrow> 'mr"
  fcram :: "nat \<Rightarrow> u8"

record shared_memory =
  owner_process :: "pid option"
  name :: string
  size_sm :: u32
  permissions :: MemoryPermission
  other_permissions :: MemoryPermission
  base_address :: VAddr
  backing_blocks :: "block list"
  holding_memory :: "Interval list"
  linear_heap_phys_offset :: u32

subsection \<open>Operations\<close>

text \<open>
  \<^verbatim>\<open>new SharedMemory(*this)\<close>: the members as the class declaration initialises them
  (no address, no blocks, nothing held); both creators assign the owner.
\<close>
definition new_SharedMemory :: shared_memory where
  "new_SharedMemory =
     \<lparr>owner_process = None, name = [], size_sm = 0, permissions = 0, other_permissions = 0,
      base_address = 0, backing_blocks = [], holding_memory = [], linear_heap_phys_offset = 0\<rparr>"

text \<open>
  \<^verbatim>\<open>holding_memory += Interval(lower, upper)\<close> on the interval set of a new object, which
  is empty: an interval set does not store an empty interval.
\<close>
definition add_Interval :: "Interval \<Rightarrow> Interval list \<Rightarrow> Interval list" where
  "add_Interval i s = (if fst i < snd i then s @ [i] else s)"

text \<open>\<^verbatim>\<open>std::fill(fcram.data() + lo, fcram.data() + hi, 0)\<close>\<close>
definition zero_fill :: "(nat \<Rightarrow> u8) \<Rightarrow> nat \<Rightarrow> nat \<Rightarrow> (nat \<Rightarrow> u8)" where
  "zero_fill mem lo hi = (\<lambda>i. if lo \<le> i \<and> i < hi then 0 else mem i)"

definition ConvertPermissions :: "platform \<Rightarrow> MemoryPermission \<Rightarrow> VMAPermission" where
  "ConvertPermissions pf permission = permission AND ReadWriteExecute pf"

text \<open>The body of the destructor's loop: one interval goes back to the SYSTEM region.\<close>
definition free_interval ::
  "('vm, 'h, 'mr) collaborators \<Rightarrow> Interval \<Rightarrow> ('vm, 'mr) kernel \<Rightarrow> ('vm, 'mr) kernel" where
  "free_interval ops i k =
     k\<lparr>memory_regions := (memory_regions k)
          (SYSTEM := Free_region ops (memory_regions k SYSTEM) (fst i) (snd i - fst i))\<rparr>"

text \<open>\<^verbatim>\<open>SharedMemory::~SharedMemory\<close>; the result code of ChangeMemoryState is dropped.\<close>
definition destroy ::
  "('vm, 'h, 'mr) collaborators \<Rightarrow> platform \<Rightarrow> ('vm, 'mr) kernel \<Rightarrow> shared_memory
     \<Rightarrow> ('vm, 'mr) kernel" where
  "destroy ops pf k sm =
     (let k1 = fold (free_interval ops) (holding_memory sm) k in
      if base_address sm \<noteq> 0 then
        (case owner_process sm of
           None \<Rightarrow> k1
         | Some p \<Rightarrow>
             k1\<lparr>processes := (processes k1)
                  (p := (processes k1 p)\<lparr>vm_manager :=
                     snd (ChangeMemoryState ops (vm_manager (processes k1 p))
                            (base_address sm) (size_sm sm) Locked (VMAPermission_None pf)
                            Private (VMAPermission_ReadWrite pf))\<rparr>)\<rparr>)
      else k1)"

text \<open>
  \<^verbatim>\<open>KernelSystem::CreateSharedMemory\<close>. When \<^verbatim>\<open>CASCADE_CODE\<close> returns the error the only
  reference to the new object is dropped, so its destructor runs.
\<close>
definition CreateSharedMemory ::
  "('vm, 'h, 'mr) collaborators \<Rightarrow> platform \<Rightarrow> ('vm, 'mr) kernel \<Rightarrow> pid option \<Rightarrow> u32
     \<Rightarrow> MemoryPermission \<Rightarrow> MemoryPermission \<Rightarrow> VAddr \<Rightarrow> MemoryRegion \<Rightarrow> string
     \<Rightarrow> fault + ((ResultCode + shared_memory) \<times> ('vm, 'mr) kernel)" where
  "CreateSharedMemory ops pf k owner sz perms operms address region nm =
     (let sm = new_SharedMemory\<lparr>owner_process := owner, name := nm, size_sm := sz,
                                permissions := perms, other_permissions := operms\<rparr> in
      if address = 0 then
        (case LinearAllocate ops (memory_regions k region) sz of
           None \<Rightarrow> Inl AssertionFailed
         | Some (offset, mr) \<Rightarrow>
             let k1 = k\<lparr>memory_regions := (memory_regions k)(region := mr),
                        fcram := zero_fill (fcram k) (unat offset) (unat offset + unat sz)\<rparr>;
                 sm1 = sm\<lparr>backing_blocks := [(unat offset, sz)],
                          holding_memory := add_Interval (offset, offset + sz) (holding_memory sm),
                          linear_heap_phys_offset := offset\<rparr>;
                 k2 = (case owner_process sm1 of
                         None \<Rightarrow> k1
                       | Some p \<Rightarrow>
                           k1\<lparr>processes := (processes k1)
                                (p := (processes k1 p)\<lparr>memory_used :=
                                        memory_used (processes k1 p) + sz\<rparr>)\<rparr>)
             in Inr (Inr (sm1\<lparr>base_address := address\<rparr>), k2))
      else
        (case owner_process sm of
           None \<Rightarrow> Inl NullDereference
         | Some p \<Rightarrow>
             let r = ChangeMemoryState ops (vm_manager (processes k p)) address sz
                       Private (VMAPermission_ReadWrite pf) Locked (ConvertPermissions pf perms);
                 k1 = k\<lparr>processes := (processes k)
                          (p := (processes k p)\<lparr>vm_manager := snd r\<rparr>)\<rparr>
             in if fst r \<noteq> RESULT_SUCCESS then Inr (Inl (fst r), destroy ops pf k1 sm)
                else (case GetBackingBlocksForRange ops (snd r) address sz of
                        Inl e \<Rightarrow> Inl AssertionFailed
                      | Inr blocks \<Rightarrow>
                          Inr (Inr (sm\<lparr>backing_blocks := blocks, base_address := address\<rparr>),
                               k1))))"

text \<open>
  The loop of \<^verbatim>\<open>CreateSharedMemoryForApplet\<close>: a backing block for each interval, and
  its bytes set to zero.
\<close>
definition applet_block ::
  "Interval \<Rightarrow> block list \<times> (nat \<Rightarrow> u8) \<Rightarrow> block list \<times> (nat \<Rightarrow> u8)" where
  "applet_block i s =
     (fst s @ [(unat (fst i), snd i - fst i)], zero_fill (snd s) (unat (fst i)) (unat (snd i)))"

definition CreateSharedMemoryForApplet ::
  "('vm, 'h, 'mr) collaborators \<Rightarrow> platform \<Rightarrow> ('vm, 'mr) kernel \<Rightarrow> u32 \<Rightarrow> u32
     \<Rightarrow> MemoryPermission \<Rightarrow> MemoryPermission \<Rightarrow> string
     \<Rightarrow> fault + (shared_memory \<times> ('vm, 'mr) kernel)" where
  "CreateSharedMemoryForApplet ops pf k offset sz perms operms nm =
     (let a = HeapAllocate ops (memory_regions k SYSTEM) sz in
      if fst a = [] then Inl AssertionFailed
      else
        let sm = new_SharedMemory\<lparr>holding_memory := fst a, owner_process := None, name := nm,
                                   size_sm := sz, permissions := perms,
                                   other_permissions := operms\<rparr>;
            l = fold applet_block (fst a) (backing_blocks sm, fcram k)
        in Inr (sm\<lparr>backing_blocks := fst l, base_address := HEAP_VADDR pf + offset\<rparr>,
                k\<lparr>memory_regions := (memory_regions k)(SYSTEM := snd a), fcram := snd l\<rparr>))"

text \<open>
  The loop of \<^verbatim>\<open>Map\<close> over the backing blocks: each block is bound at the next address
  and reprotected; a binding that fails is a failed assertion.
\<close>
fun map_blocks ::
  "('vm, 'h, 'mr) collaborators \<Rightarrow> platform \<Rightarrow> MemoryPermission \<Rightarrow> 'vm \<Rightarrow> VAddr
     \<Rightarrow> block list \<Rightarrow> fault + 'vm" where
  "map_blocks ops pf perms vm interval_target [] = Inr vm"
| "map_blocks ops pf perms vm interval_target (interval # rest) =
     (case MapBackingMemory ops vm interval_target (fst interval) (snd interval) Shared of
        Inl e \<Rightarrow> Inl AssertionFailed
      | Inr (h, vm1) \<Rightarrow>
          map_blocks ops pf perms (Reprotect ops vm1 h (ConvertPermissions pf perms))
            (interval_target + snd interval) rest)"

text \<open>The local \<^verbatim>\<open>target_address\<close> of \<^verbatim>\<open>Map\<close>.\<close>
definition target_address :: "platform \<Rightarrow> shared_memory \<Rightarrow> VAddr \<Rightarrow> VAddr" where
  "target_address pf sm address =
     (if base_address sm = 0 \<and> address = 0
      then linear_heap_phys_offset sm + LINEAR_HEAP_VADDR pf else address)"

text \<open>The local \<^verbatim>\<open>own_other_permissions\<close> of \<^verbatim>\<open>Map\<close>, for the target process \<open>tp\<close>.\<close>
definition own_other_permissions :: "shared_memory \<Rightarrow> pid \<Rightarrow> MemoryPermission" where
  "own_other_permissions sm tp =
     (if Some tp = owner_process sm then permissions sm else other_permissions sm)"

text \<open>
  \<^verbatim>\<open>SharedMemory::Map\<close>, called on the object \<open>sm\<close> for the process \<open>tp\<close> of the kernel. It
  returns the result code, the object and the kernel as the call leaves them.
\<close>
definition Map ::
  "('vm, 'h, 'mr) collaborators \<Rightarrow> platform \<Rightarrow> shared_memory \<Rightarrow> ('vm, 'mr) kernel \<Rightarrow> pid
     \<Rightarrow> VAddr \<Rightarrow> MemoryPermission \<Rightarrow> MemoryPermission
     \<Rightarrow> fault + (ResultCode \<times> shared_memory \<times> ('vm, 'mr) kernel)" where
  "Map ops pf sm k tp address perms operms =
     (if base_address sm = 0 \<and> operms \<noteq> DontCare pf then Inr (ERR_INVALID_COMBINATION, sm, k)
      else if perms AND NOT (own_other_permissions sm tp) \<noteq> 0
        then Inr (ERR_INVALID_COMBINATION, sm, k)
      else if base_address sm \<noteq> 0 \<and> operms = DontCare pf
        then Inr (ERR_INVALID_COMBINATION, sm, k)
      else if operms \<noteq> DontCare pf \<and> permissions sm AND NOT operms \<noteq> 0
        then Inr (ERR_WRONG_PERMISSION, sm, k)
      else if address \<noteq> 0 \<and>
              (address < HEAP_VADDR pf \<or> address + size_sm sm \<ge> SHARED_MEMORY_VADDR_END pf)
        then Inr (ERR_INVALID_ADDRESS, sm, k)
      else
        (case FindVMA ops (vm_manager (processes k tp)) (target_address pf sm address) of
           None \<Rightarrow> Inl InvalidIterator
         | Some vma \<Rightarrow>
             if type_vma vma \<noteq> Free \<or>
                base_vma vma + size_vma vma < target_address pf sm address + size_sm sm
             then Inr (ERR_INVALID_ADDRESS_STATE, sm, k)
             else
               (case map_blocks ops pf perms (vm_manager (processes k tp))
                       (target_address pf sm address) (backing_blocks sm) of
                  Inl f \<Rightarrow> Inl f
                | Inr vm \<Rightarrow>
                    Inr (RESULT_SUCCESS, sm,
                         k\<lparr>processes := (processes k)
                              (tp := (processes k tp)\<lparr>vm_manager := vm\<rparr>)\<rparr>))))"

subsection \<open>The vocabulary of the specification\<close>

text \<open>
  A permission mask is a set of rights, one for each bit: \<open>p\<close> is a subset of \<open>q\<close> when
  every bit of \<open>p\<close> is a bit of \<open>q\<close>.
\<close>
definition perm_subset :: "MemoryPermission \<Rightarrow> MemoryPermission \<Rightarrow> bool" where
  "perm_subset p q = (\<forall>n<32. bit p n \<longrightarrow> bit q n)"

text \<open>
  The permission checks of the Map protocol in the words of the specification (section
  4.2, steps 1 to 5), on the inputs of a call: the requested permissions are compared
  with \<open>permissions\<close> of the object when the target process is the owner and with
  \<open>other_permissions\<close> of the object otherwise.
\<close>
definition permission_checks_pass ::
  "platform \<Rightarrow> shared_memory \<Rightarrow> pid \<Rightarrow> MemoryPermission \<Rightarrow> MemoryPermission \<Rightarrow> bool" where
  "permission_checks_pass pf sm tp perms operms =
     ((base_address sm = 0 \<longrightarrow> operms = DontCare pf) \<and>
      perm_subset perms
        (if owner_process sm = Some tp then permissions sm else other_permissions sm) \<and>
      (base_address sm \<noteq> 0 \<longrightarrow> operms \<noteq> DontCare pf) \<and>
      (operms \<noteq> DontCare pf \<longrightarrow> perm_subset (permissions sm) operms))"

text \<open>
  The range \<open>[address, address + size)\<close>, as numbers, reaches below the band of addresses
  from \<open>HEAP_VADDR\<close> to \<open>SHARED_MEMORY_VADDR_END\<close> or beyond its end.
\<close>
definition outside_band :: "platform \<Rightarrow> VAddr \<Rightarrow> u32 \<Rightarrow> bool" where
  "outside_band pf address sz =
     (unat address < unat (HEAP_VADDR pf) \<or>
      unat (SHARED_MEMORY_VADDR_END pf) < unat address + unat sz)"

text \<open>The range, as numbers, starts in the band and ends before the end of the band.\<close>
definition inside_band :: "platform \<Rightarrow> VAddr \<Rightarrow> u32 \<Rightarrow> bool" where
  "inside_band pf address sz =
     (unat (HEAP_VADDR pf) \<le> unat address \<and>
      unat address + unat sz < unat (SHARED_MEMORY_VADDR_END pf))"

text \<open>The bounds of the area, as numbers, contain the range \<open>[a, a + sz)\<close>.\<close>
definition vma_contains :: "VirtualMemoryArea \<Rightarrow> VAddr \<Rightarrow> u32 \<Rightarrow> bool" where
  "vma_contains vma a sz =
     (unat (base_vma vma) \<le> unat a \<and>
      unat a + unat sz \<le> unat (base_vma vma) + unat (size_vma vma))"

subsection \<open>A small instance of the parameters\<close>

text \<open>
  To run the model on concrete inputs the parameters need values. The constants are
  those of the emulated machine: the band of shared memory addresses goes from 0x08000000
  to 0x14000000, where the linear heap starts; the permissions are three bits and
  \<open>DontCare\<close> is bit 28.
\<close>
definition sample_platform :: platform where
  "sample_platform =
     \<lparr>HEAP_VADDR = 0x08000000, SHARED_MEMORY_VADDR_END = 0x14000000,
      LINEAR_HEAP_VADDR = 0x14000000, DontCare = 0x10000000, ReadWriteExecute = 7,
      VMAPermission_None = 0, VMAPermission_ReadWrite = 3\<rparr>"

text \<open>
  An address space is a list of areas, each with its state and permissions; the first
  area of the list that covers an address is the area found.
\<close>
type_synonym sample_area = "VirtualMemoryArea \<times> MemoryState \<times> VMAPermission"

definition sample_covers :: "VAddr \<Rightarrow> sample_area \<Rightarrow> bool" where
  "sample_covers a x = (base_vma (fst x) \<le> a \<and> a - base_vma (fst x) < size_vma (fst x))"

definition sample_FindVMA :: "sample_area list \<Rightarrow> VAddr \<Rightarrow> VirtualMemoryArea option" where
  "sample_FindVMA vm a = map_option fst (find (sample_covers a) vm)"

definition sample_MapBackingMemory ::
  "sample_area list \<Rightarrow> VAddr \<Rightarrow> nat \<Rightarrow> u32 \<Rightarrow> MemoryState
     \<Rightarrow> ResultCode + (nat \<times> sample_area list)" where
  "sample_MapBackingMemory vm a ptr len st =
     (if len = 0 then Inl ERR_INVALID_ADDRESS
      else Inr (0, (\<lparr>type_vma = BackingMemory, base_vma = a, size_vma = len\<rparr>, st, 0) # vm))"

definition sample_Reprotect :: "sample_area list \<Rightarrow> nat \<Rightarrow> VMAPermission \<Rightarrow> sample_area list" where
  "sample_Reprotect vm h p = vm[h := (fst (vm ! h), fst (snd (vm ! h)), p)]"

definition sample_in_state ::
  "VAddr \<Rightarrow> u32 \<Rightarrow> MemoryState \<Rightarrow> VMAPermission \<Rightarrow> sample_area \<Rightarrow> bool" where
  "sample_in_state a sz st p x =
     (base_vma (fst x) = a \<and> size_vma (fst x) = sz \<and> fst (snd x) = st \<and> snd (snd x) AND p = p)"

definition sample_set_state ::
  "VAddr \<Rightarrow> u32 \<Rightarrow> MemoryState \<Rightarrow> VMAPermission \<Rightarrow> MemoryState \<Rightarrow> VMAPermission
     \<Rightarrow> sample_area \<Rightarrow> sample_area" where
  "sample_set_state a sz st p st' p' x = (if sample_in_state a sz st p x then (fst x, st', p') else x)"

definition sample_ChangeMemoryState ::
  "sample_area list \<Rightarrow> VAddr \<Rightarrow> u32 \<Rightarrow> MemoryState \<Rightarrow> VMAPermission \<Rightarrow> MemoryState
     \<Rightarrow> VMAPermission \<Rightarrow> ResultCode \<times> sample_area list" where
  "sample_ChangeMemoryState vm a sz st p st' p' =
     (if list_ex (sample_in_state a sz st p) vm
      then (RESULT_SUCCESS, map (sample_set_state a sz st p st' p') vm)
      else (ERR_INVALID_ADDRESS_STATE, vm))"

definition sample_GetBackingBlocksForRange ::
  "sample_area list \<Rightarrow> VAddr \<Rightarrow> u32 \<Rightarrow> ResultCode + block list" where
  "sample_GetBackingBlocksForRange vm a sz =
     (if list_ex (sample_covers a) vm then Inr [(unat a, sz)] else Inl ERR_INVALID_ADDRESS)"

text \<open>
  A region hands out offsets in increasing order up to its end, and keeps the list of
  the intervals given back to it.
\<close>
type_synonym sample_region = "u32 \<times> u32 \<times> Interval list"

definition sample_LinearAllocate :: "sample_region \<Rightarrow> u32 \<Rightarrow> (u32 \<times> sample_region) option" where
  "sample_LinearAllocate r sz =
     (if sz \<le> fst (snd r) - fst r then Some (fst r, (fst r + sz, snd r)) else None)"

definition sample_HeapAllocate :: "sample_region \<Rightarrow> u32 \<Rightarrow> Interval list \<times> sample_region" where
  "sample_HeapAllocate r sz =
     (if sz \<noteq> 0 \<and> sz \<le> fst (snd r) - fst r
      then ([(fst r, fst r + sz)], (fst r + sz, snd r)) else ([], r))"

definition sample_Free :: "sample_region \<Rightarrow> u32 \<Rightarrow> u32 \<Rightarrow> sample_region" where
  "sample_Free r offset sz = (fst r, fst (snd r), snd (snd r) @ [(offset, offset + sz)])"

definition sample_ops :: "(sample_area list, nat, sample_region) collaborators" where
  "sample_ops =
     \<lparr>FindVMA = sample_FindVMA, MapBackingMemory = sample_MapBackingMemory,
      Reprotect = sample_Reprotect, ChangeMemoryState = sample_ChangeMemoryState,
      GetBackingBlocksForRange = sample_GetBackingBlocksForRange,
      LinearAllocate = sample_LinearAllocate, HeapAllocate = sample_HeapAllocate,
      Free_region = sample_Free\<rparr>"

text \<open>
  Every process starts with a page of private read-write memory at 0x08000000, an
  allocated page at 0x00100000, and the rest of the band and the linear heap free.
\<close>
definition sample_vm :: "sample_area list" where
  "sample_vm =
     [(\<lparr>type_vma = AllocatedMemoryBlock, base_vma = 0x00100000, size_vma = 0x1000\<rparr>,
         OtherState 4, 5),
      (\<lparr>type_vma = AllocatedMemoryBlock, base_vma = 0x08000000, size_vma = 0x1000\<rparr>,
         Private, 3),
      (\<lparr>type_vma = Free, base_vma = 0x08001000, size_vma = 0x0BFFF000\<rparr>, OtherState 0, 0),
      (\<lparr>type_vma = Free, base_vma = 0x14000000, size_vma = 0x08000000\<rparr>, OtherState 0, 0)]"

definition sample_kernel :: "(sample_area list, sample_region) kernel" where
  "sample_kernel =
     \<lparr>processes = (\<lambda>p. \<lparr>vm_manager = sample_vm, memory_used = 0\<rparr>),
      memory_regions = (\<lambda>r. (0, 0x01000000, [])),
      fcram = (\<lambda>i. 0xFF)\<rparr>"

text \<open>
  A freshly allocated object of one page, owned by process 1, and a borrowed one at the
  private page of process 1.
\<close>
definition sample_fresh :: shared_memory where
  "sample_fresh =
     \<lparr>owner_process = Some 1, name = ''fresh'', size_sm = 0x1000, permissions = 3,
      other_permissions = 1, base_address = 0, backing_blocks = [(0, 0x1000)],
      holding_memory = [(0, 0x1000)], linear_heap_phys_offset = 0\<rparr>"

definition sample_borrowed :: shared_memory where
  "sample_borrowed =
     \<lparr>owner_process = Some 1, name = ''borrowed'', size_sm = 0x1000, permissions = 1,
      other_permissions = 1, base_address = 0x08000000, backing_blocks = [(0x08000000, 0x1000)],
      holding_memory = [], linear_heap_phys_offset = 0\<rparr>"

text \<open>The sample kernel once process 2 has a page of the object, read-only, at \<open>a\<close>.\<close>
definition sample_kernel_mapped :: "VAddr \<Rightarrow> (sample_area list, sample_region) kernel" where
  "sample_kernel_mapped a =
     sample_kernel\<lparr>processes := (processes sample_kernel)
       (2 := \<lparr>vm_manager =
                 (\<lparr>type_vma = BackingMemory, base_vma = a, size_vma = 0x1000\<rparr>, Shared, 1)
                 # sample_vm,
               memory_used = 0\<rparr>)\<rparr>"

text \<open>
  The sample kernel once a page at offset 0 of the BASE region has been handed out and
  set to zero, and once process 1 has been charged for it.
\<close>
definition sample_kernel_allocated :: "(sample_area list, sample_region) kernel" where
  "sample_kernel_allocated =
     sample_kernel\<lparr>memory_regions := (memory_regions sample_kernel)(BASE := (0x1000, 0x01000000, [])),
                   fcram := zero_fill (fcram sample_kernel) 0 4096\<rparr>"

definition sample_kernel_created :: "(sample_area list, sample_region) kernel" where
  "sample_kernel_created =
     sample_kernel_allocated\<lparr>processes := (processes sample_kernel_allocated)
       (1 := \<lparr>vm_manager = sample_vm, memory_used = 0x1000\<rparr>)\<rparr>"

text \<open>The address space of process 1 once its private page is locked, readable only.\<close>
definition sample_vm_locked :: "sample_area list" where
  "sample_vm_locked =
     [(\<lparr>type_vma = AllocatedMemoryBlock, base_vma = 0x00100000, size_vma = 0x1000\<rparr>,
         OtherState 4, 5),
      (\<lparr>type_vma = AllocatedMemoryBlock, base_vma = 0x08000000, size_vma = 0x1000\<rparr>,
         Locked, 1),
      (\<lparr>type_vma = Free, base_vma = 0x08001000, size_vma = 0x0BFFF000\<rparr>, OtherState 0, 0),
      (\<lparr>type_vma = Free, base_vma = 0x14000000, size_vma = 0x08000000\<rparr>, OtherState 0, 0)]"

definition sample_kernel_locked :: "(sample_area list, sample_region) kernel" where
  "sample_kernel_locked =
     sample_kernel\<lparr>processes := (processes sample_kernel)
       (1 := \<lparr>vm_manager = sample_vm_locked, memory_used = 0\<rparr>)\<rparr>"

text \<open>The object of the applet variant for a page at offset 0, and the kernel it leaves.\<close>
definition sample_applet :: shared_memory where
  "sample_applet =
     \<lparr>owner_process = None, name = ''applet'', size_sm = 0x1000, permissions = 3,
      other_permissions = 3, base_address = 0x08000000, backing_blocks = [(0, 0x1000)],
      holding_memory = [(0, 0x1000)], linear_heap_phys_offset = 0\<rparr>"

definition sample_kernel_applet :: "(sample_area list, sample_region) kernel" where
  "sample_kernel_applet =
     sample_kernel\<lparr>memory_regions := (memory_regions sample_kernel)(SYSTEM := (0x1000, 0x01000000, [])),
                   fcram := zero_fill (fcram sample_kernel) 0 4096\<rparr>"

text \<open>
  A borrowed object whose owner, process 1, may read and write and whose other processes
  may only read; and the sample kernel once process \<open>p\<close> has a page of it at 0x10000000
  with the permissions \<open>q\<close>.
\<close>
definition sample_shared :: shared_memory where
  "sample_shared =
     \<lparr>owner_process = Some 1, name = ''shared'', size_sm = 0x1000, permissions = 3,
      other_permissions = 1, base_address = 0x08000000, backing_blocks = [(0x08000000, 0x1000)],
      holding_memory = [], linear_heap_phys_offset = 0\<rparr>"

definition sample_kernel_page ::
  "pid \<Rightarrow> VMAPermission \<Rightarrow> (sample_area list, sample_region) kernel" where
  "sample_kernel_page p q =
     sample_kernel\<lparr>processes := (processes sample_kernel)
       (p := \<lparr>vm_manager =
                 (\<lparr>type_vma = BackingMemory, base_vma = 0x10000000, size_vma = 0x1000\<rparr>,
                  Shared, q) # sample_vm,
               memory_used = 0\<rparr>)\<rparr>"

text \<open>
  The second page that process 1 gets from the BASE region, at offset 0x1000, and the
  kernel it leaves.
\<close>
definition sample_second :: shared_memory where
  "sample_second =
     \<lparr>owner_process = Some 1, name = ''second'', size_sm = 0x1000, permissions = 3,
      other_permissions = 1, base_address = 0, backing_blocks = [(4096, 0x1000)],
      holding_memory = [(0x1000, 0x2000)], linear_heap_phys_offset = 0x1000\<rparr>"

definition sample_kernel_second :: "(sample_area list, sample_region) kernel" where
  "sample_kernel_second =
     sample_kernel\<lparr>memory_regions := (memory_regions sample_kernel)(BASE := (0x2000, 0x01000000, [])),
                   fcram := zero_fill (zero_fill (fcram sample_kernel) 0 4096) 4096 8192,
                   processes := (processes sample_kernel)
                     (1 := \<lparr>vm_manager = sample_vm, memory_used = 0x2000\<rparr>)\<rparr>"

section \<open>Properties\<close>

subsection \<open>The checks of Map\<close>

text \<open>The test \<^verbatim>\<open>p & ~q\<close> of the source decides the subset relation of the masks.\<close>

lemma perm_subset_iff: "(p AND NOT q = 0) = perm_subset p q"
proof
  assume h: "p AND NOT q = 0"
  show "perm_subset p q"
    unfolding perm_subset_def
  proof (intro allI impI)
    fix n assume "n < (32::nat)" "bit p n"
    have "\<not> bit (p AND NOT q) n" using h by simp
    then show "bit q n" using \<open>bit p n\<close> \<open>n < 32\<close> by (simp add: bit_and_iff bit_not_iff)
  qed
next
  assume h: "perm_subset p q"
  show "p AND NOT q = 0"
  proof (rule bit_eqI)
    fix n assume "possible_bit TYPE(32 word) n"
    then have "n < 32" by simp
    then show "bit (p AND NOT q) n = bit (0::32 word) n"
      using h by (auto simp: perm_subset_def bit_and_iff bit_not_iff)
  qed
qed

lemma own_other_permissions_fields:
  "own_other_permissions sm tp =
     (if owner_process sm = Some tp then permissions sm else other_permissions sm)"
  by (auto simp: own_other_permissions_def)

lemma Map_permission_errors:
  "\<not> permission_checks_pass pf sm tp perms operms \<Longrightarrow>
   Map ops pf sm k tp address perms operms =
     Inr (if base_address sm \<noteq> 0 \<and>
             perm_subset perms
               (if owner_process sm = Some tp then permissions sm else other_permissions sm) \<and>
             operms \<noteq> DontCare pf
          then ERR_WRONG_PERMISSION else ERR_INVALID_COMBINATION, sm, k)"
  by (auto simp: Map_def permission_checks_pass_def perm_subset_iff
        own_other_permissions_fields)

lemma Map_after_permission_checks:
  "permission_checks_pass pf sm tp perms operms \<Longrightarrow>
   Map ops pf sm k tp address perms operms =
     (if address \<noteq> 0 \<and>
         (address < HEAP_VADDR pf \<or> address + size_sm sm \<ge> SHARED_MEMORY_VADDR_END pf)
      then Inr (ERR_INVALID_ADDRESS, sm, k)
      else
        (case FindVMA ops (vm_manager (processes k tp)) (target_address pf sm address) of
           None \<Rightarrow> Inl InvalidIterator
         | Some vma \<Rightarrow>
             if type_vma vma \<noteq> Free \<or>
                base_vma vma + size_vma vma < target_address pf sm address + size_sm sm
             then Inr (ERR_INVALID_ADDRESS_STATE, sm, k)
             else
               (case map_blocks ops pf perms (vm_manager (processes k tp))
                       (target_address pf sm address) (backing_blocks sm) of
                  Inl f \<Rightarrow> Inl f
                | Inr vm \<Rightarrow>
                    Inr (RESULT_SUCCESS, sm,
                         k\<lparr>processes := (processes k)
                              (tp := (processes k tp)\<lparr>vm_manager := vm\<rparr>)\<rparr>))))"
  by (auto simp: Map_def permission_checks_pass_def perm_subset_iff
        own_other_permissions_fields)

lemma Map_object_unchanged:
  "Map ops pf sm k tp address perms operms = Inr (rc, sm', k') \<Longrightarrow> sm' = sm"
  by (auto simp: Map_def split: if_splits option.splits sum.splits)

lemma Map_error_kernel_unchanged:
  "Map ops pf sm k tp address perms operms = Inr (rc, sm', k') \<Longrightarrow> rc \<noteq> RESULT_SUCCESS \<Longrightarrow> k' = k"
  by (auto simp: Map_def split: if_splits option.splits sum.splits)

lemma Map_success_checks:
  "Map ops pf sm k tp address perms operms = Inr (RESULT_SUCCESS, sm', k') \<Longrightarrow>
   permission_checks_pass pf sm tp perms operms"
  by (auto simp: Map_def permission_checks_pass_def perm_subset_iff
        own_other_permissions_fields split: if_splits)

lemma unat_plus_no_wrap:
  "unat (a::u32) + unat b < 2 ^ 32 \<Longrightarrow> unat (a + b) = unat a + unat b"
  using unat_add_lem [of a b] by simp

lemma unat_plus_le: "unat ((a::u32) + b) \<le> unat a + unat b"
  by (simp add: unat_word_ariths)

subsection \<open>Runs on the sample instance\<close>

lemmas sample_defs = sample_platform_def sample_ops_def sample_kernel_def sample_vm_def
  sample_fresh_def sample_borrowed_def sample_FindVMA_def sample_covers_def
  sample_MapBackingMemory_def sample_Reprotect_def sample_kernel_mapped_def

lemma m_success:
  "Map sample_ops sample_platform sample_borrowed sample_kernel 2 0x10000000 1 1 =
     Inr (RESULT_SUCCESS, sample_borrowed, sample_kernel_mapped 0x10000000)"
  by (simp add: Map_def own_other_permissions_def target_address_def ConvertPermissions_def sample_defs)

lemma m_success2:
  "Map sample_ops sample_platform sample_fresh sample_kernel 2 0 1 0x10000000 =
     Inr (RESULT_SUCCESS, sample_fresh, sample_kernel_mapped 0x14000000)"
  by (simp add: Map_def own_other_permissions_def target_address_def ConvertPermissions_def sample_defs)

lemma sample_checks_borrowed:
  "permission_checks_pass sample_platform sample_borrowed 2 1 1"
  by (simp add: permission_checks_pass_def own_other_permissions_def perm_subset_iff [symmetric]
        sample_borrowed_def sample_platform_def)

lemma sample_checks_fresh:
  "permission_checks_pass sample_platform sample_fresh 2 1 (DontCare sample_platform)"
  by (simp add: permission_checks_pass_def own_other_permissions_def perm_subset_iff [symmetric]
        sample_fresh_def sample_platform_def)


subsection \<open>The claims about Map\<close>

text \<open>
  Claim C1, with the order of the checks made explicit. Map succeeds only if the requested
  permissions are a subset of the permissions resolved for the target process, which are
  \<open>permissions\<close> of the object when the target process is its owner and
  \<open>other_permissions\<close> of the object otherwise, and, when the caller's \<open>other_permissions\<close>
  is not \<open>DontCare\<close>, only if the permissions of the object are a subset of it. A request
  outside the resolved set always returns \<open>ERR_INVALID_COMBINATION\<close>. Permissions of the
  object outside the caller's \<open>other_permissions\<close> return \<open>ERR_WRONG_PERMISSION\<close> when the
  checks before have passed, that is for a borrowed object and a request within the
  resolved set; on a freshly allocated object any \<open>other_permissions\<close> but \<open>DontCare\<close>
  returns \<open>ERR_INVALID_COMBINATION\<close> first.
\<close>
theorem Map_permission_subset_law:
  "(Map ops pf sm k tp address perms operms = Inr (RESULT_SUCCESS, sm', k') \<longrightarrow>
      perm_subset perms
        (if owner_process sm = Some tp then permissions sm else other_permissions sm) \<and>
      (operms \<noteq> DontCare pf \<longrightarrow> perm_subset (permissions sm) operms)) \<and>
   (\<not> perm_subset perms
        (if owner_process sm = Some tp then permissions sm else other_permissions sm) \<longrightarrow>
      Map ops pf sm k tp address perms operms = Inr (ERR_INVALID_COMBINATION, sm, k)) \<and>
   (base_address sm \<noteq> 0 \<and>
    perm_subset perms
      (if owner_process sm = Some tp then permissions sm else other_permissions sm) \<and>
    operms \<noteq> DontCare pf \<and> \<not> perm_subset (permissions sm) operms \<longrightarrow>
      Map ops pf sm k tp address perms operms = Inr (ERR_WRONG_PERMISSION, sm, k)) \<and>
   (base_address sm = 0 \<and> operms \<noteq> DontCare pf \<longrightarrow>
      Map ops pf sm k tp address perms operms = Inr (ERR_INVALID_COMBINATION, sm, k))"
proof (intro conjI impI)
  assume "Map ops pf sm k tp address perms operms = Inr (RESULT_SUCCESS, sm', k')"
  then have c: "permission_checks_pass pf sm tp perms operms" by (rule Map_success_checks)
  from c show "perm_subset perms
        (if owner_process sm = Some tp then permissions sm else other_permissions sm)"
    by (simp add: permission_checks_pass_def)
  assume "operms \<noteq> DontCare pf"
  with c show "perm_subset (permissions sm) operms"
    by (simp add: permission_checks_pass_def)
next
  assume "\<not> perm_subset perms
        (if owner_process sm = Some tp then permissions sm else other_permissions sm)"
  then show "Map ops pf sm k tp address perms operms = Inr (ERR_INVALID_COMBINATION, sm, k)"
    by (simp add: Map_permission_errors permission_checks_pass_def)
next
  assume "base_address sm \<noteq> 0 \<and>
    perm_subset perms
      (if owner_process sm = Some tp then permissions sm else other_permissions sm) \<and>
    operms \<noteq> DontCare pf \<and> \<not> perm_subset (permissions sm) operms"
  then show "Map ops pf sm k tp address perms operms = Inr (ERR_WRONG_PERMISSION, sm, k)"
    by (simp add: Map_permission_errors permission_checks_pass_def)
next
  assume "base_address sm = 0 \<and> operms \<noteq> DontCare pf"
  then show "Map ops pf sm k tp address perms operms = Inr (ERR_INVALID_COMBINATION, sm, k)"
    by (simp add: Map_def)
qed

text \<open>
  The law on the sample object that its owner, process 1, may read and write and other
  processes may only read. The owner maps a page for writing and process 2 is refused
  the same request; process 2 maps the page for reading; a caller whose
  \<open>other_permissions\<close> leaves out a permission of the object gets \<open>ERR_WRONG_PERMISSION\<close>;
  and on the fresh sample object \<open>other_permissions = 3\<close> gets \<open>ERR_INVALID_COMBINATION\<close>.
\<close>
theorem Map_permission_subset_law_witness:
  "owner_process sample_shared = Some 1 \<and> permissions sample_shared = 3 \<and>
   other_permissions sample_shared = 1 \<and> base_address sample_shared \<noteq> 0 \<and>
   (3::u32) \<noteq> DontCare sample_platform \<and> (1::u32) \<noteq> DontCare sample_platform \<and>
   Map sample_ops sample_platform sample_shared sample_kernel 1 0x10000000 2 3 =
     Inr (RESULT_SUCCESS, sample_shared, sample_kernel_page 1 2) \<and>
   perm_subset 2 (permissions sample_shared) \<and>
   perm_subset (permissions sample_shared) 3 \<and>
   \<not> perm_subset 2 (other_permissions sample_shared) \<and>
   Map sample_ops sample_platform sample_shared sample_kernel 2 0x10000000 2 3 =
     Inr (ERR_INVALID_COMBINATION, sample_shared, sample_kernel) \<and>
   Map sample_ops sample_platform sample_shared sample_kernel 2 0x10000000 1 3 =
     Inr (RESULT_SUCCESS, sample_shared, sample_kernel_page 2 1) \<and>
   perm_subset 1 (other_permissions sample_shared) \<and>
   \<not> perm_subset (permissions sample_shared) 1 \<and>
   Map sample_ops sample_platform sample_shared sample_kernel 2 0x10000000 1 1 =
     Inr (ERR_WRONG_PERMISSION, sample_shared, sample_kernel) \<and>
   base_address sample_fresh = 0 \<and>
   Map sample_ops sample_platform sample_fresh sample_kernel 1 0 1 3 =
     Inr (ERR_INVALID_COMBINATION, sample_fresh, sample_kernel)"
proof -
  have o: "owner_process sample_shared = Some 1" "permissions sample_shared = 3"
    "other_permissions sample_shared = 1" "base_address sample_shared \<noteq> 0"
    by (simp_all add: sample_shared_def)
  have o2: "owner_process sample_shared \<noteq> Some 2"
    by (simp add: sample_shared_def)
  have d: "(3::u32) \<noteq> DontCare sample_platform" "(1::u32) \<noteq> DontCare sample_platform"
    by (simp_all add: sample_platform_def)
  have f: "base_address sample_fresh = 0"
    by (simp add: sample_fresh_def)
  have m1: "Map sample_ops sample_platform sample_shared sample_kernel 1 0x10000000 2 3 =
     Inr (RESULT_SUCCESS, sample_shared, sample_kernel_page 1 2)"
    by (simp add: Map_def own_other_permissions_def target_address_def ConvertPermissions_def
          sample_platform_def sample_ops_def sample_kernel_def sample_vm_def sample_shared_def
          sample_FindVMA_def sample_covers_def sample_MapBackingMemory_def sample_Reprotect_def
          sample_kernel_page_def)
  have m2: "Map sample_ops sample_platform sample_shared sample_kernel 2 0x10000000 1 3 =
     Inr (RESULT_SUCCESS, sample_shared, sample_kernel_page 2 1)"
    by (simp add: Map_def own_other_permissions_def target_address_def ConvertPermissions_def
          sample_platform_def sample_ops_def sample_kernel_def sample_vm_def sample_shared_def
          sample_FindVMA_def sample_covers_def sample_MapBackingMemory_def sample_Reprotect_def
          sample_kernel_page_def)
  note t1 = Map_permission_subset_law [where ops = sample_ops and pf = sample_platform
        and sm = sample_shared and k = sample_kernel and tp = 1 and address = "0x10000000"
        and perms = 2 and operms = 3 and sm' = sample_shared and k' = "sample_kernel_page 1 2"]
  note t2 = Map_permission_subset_law [where ops = sample_ops and pf = sample_platform
        and sm = sample_shared and k = sample_kernel and tp = 2 and address = "0x10000000"
        and perms = 2 and operms = 3]
  note t3 = Map_permission_subset_law [where ops = sample_ops and pf = sample_platform
        and sm = sample_shared and k = sample_kernel and tp = 2 and address = "0x10000000"
        and perms = 1 and operms = 3 and sm' = sample_shared and k' = "sample_kernel_page 2 1"]
  note t4 = Map_permission_subset_law [where ops = sample_ops and pf = sample_platform
        and sm = sample_shared and k = sample_kernel and tp = 2 and address = "0x10000000"
        and perms = 1 and operms = 1]
  note t5 = Map_permission_subset_law [where ops = sample_ops and pf = sample_platform
        and sm = sample_fresh and k = sample_kernel and tp = 1 and address = 0
        and perms = 1 and operms = 3]
  have "perm_subset 2
      (if owner_process sample_shared = Some 1 then permissions sample_shared
       else other_permissions sample_shared)"
    using t1 m1 by blast
  then have s1: "perm_subset 2 (permissions sample_shared)"
    by (simp add: o(1))
  have s2: "perm_subset (permissions sample_shared) 3"
    using t1 m1 d(1) by blast
  have n2: "\<not> perm_subset 2 (other_permissions sample_shared)"
    by (simp add: perm_subset_iff [symmetric] sample_shared_def)
  then have "\<not> perm_subset 2
      (if owner_process sample_shared = Some 2 then permissions sample_shared
       else other_permissions sample_shared)"
    by (simp only: o2 if_False) simp
  with t2 have r2: "Map sample_ops sample_platform sample_shared sample_kernel 2 0x10000000 2 3 =
     Inr (ERR_INVALID_COMBINATION, sample_shared, sample_kernel)"
    by blast
  have "perm_subset 1
      (if owner_process sample_shared = Some 2 then permissions sample_shared
       else other_permissions sample_shared)"
    using t3 m2 by blast
  then have s3: "perm_subset 1 (other_permissions sample_shared)"
    by (simp only: o2 if_False)
  have n4: "\<not> perm_subset (permissions sample_shared) 1"
    by (simp add: perm_subset_iff [symmetric] sample_shared_def)
  have "perm_subset 1
      (if owner_process sample_shared = Some 2 then permissions sample_shared
       else other_permissions sample_shared)"
    using s3 by (simp only: o2 if_False)
  with t4 o(4) d(2) n4
  have r4: "Map sample_ops sample_platform sample_shared sample_kernel 2 0x10000000 1 1 =
     Inr (ERR_WRONG_PERMISSION, sample_shared, sample_kernel)"
    by blast
  have r5: "Map sample_ops sample_platform sample_fresh sample_kernel 1 0 1 3 =
     Inr (ERR_INVALID_COMBINATION, sample_fresh, sample_kernel)"
    using t5 f d(1) by blast
  show ?thesis
    using o d m1 s1 s2 n2 r2 m2 s3 n4 r4 f r5 by blast
qed

text \<open>
  Claim C1 as it is written fails: process 2, which is not the owner, maps the fresh sample
  object with a request within \<open>other_permissions\<close> of the object and with the caller's
  \<open>other_permissions = 1\<close>, which is not \<open>DontCare\<close> and does not include the permissions of
  the object, and the result is \<open>ERR_INVALID_COMBINATION\<close>, not \<open>ERR_WRONG_PERMISSION\<close>.
\<close>
theorem Map_permission_subset_law_counterexample:
  "(1::u32) \<noteq> DontCare sample_platform \<and>
   owner_process sample_fresh \<noteq> Some 2 \<and>
   perm_subset 1 (other_permissions sample_fresh) \<and>
   \<not> perm_subset (permissions sample_fresh) 1 \<and>
   Map sample_ops sample_platform sample_fresh sample_kernel 2 0 1 1 =
     Inr (ERR_INVALID_COMBINATION, sample_fresh, sample_kernel) \<and>
   ERR_INVALID_COMBINATION \<noteq> ERR_WRONG_PERMISSION"
  by (simp add: Map_def perm_subset_iff [symmetric] sample_fresh_def sample_platform_def)

text \<open>
  Claim C2. On a freshly allocated object (\<open>base_address = 0\<close>) every Map call with
  \<open>other_permissions\<close> different from \<open>DontCare\<close> returns \<open>ERR_INVALID_COMBINATION\<close>, and on
  a borrowed object (\<open>base_address \<noteq> 0\<close>) every Map call with \<open>other_permissions =
  DontCare\<close> returns \<open>ERR_INVALID_COMBINATION\<close>; neither changes the object or the kernel.
\<close>
theorem Map_DontCare_exclusivity:
  "(base_address sm = 0 \<and> operms \<noteq> DontCare pf \<longrightarrow>
      Map ops pf sm k tp address perms operms = Inr (ERR_INVALID_COMBINATION, sm, k)) \<and>
   (base_address sm \<noteq> 0 \<and> operms = DontCare pf \<longrightarrow>
      Map ops pf sm k tp address perms operms = Inr (ERR_INVALID_COMBINATION, sm, k))"
  by (simp add: Map_def)

text \<open>Both rejections on the sample objects.\<close>
theorem Map_DontCare_exclusivity_witness:
  "base_address sample_fresh = 0 \<and> (1::u32) \<noteq> DontCare sample_platform \<and>
   Map sample_ops sample_platform sample_fresh sample_kernel 2 0 1 1 =
     Inr (ERR_INVALID_COMBINATION, sample_fresh, sample_kernel) \<and>
   base_address sample_borrowed \<noteq> 0 \<and>
   Map sample_ops sample_platform sample_borrowed sample_kernel 2 0x10000000 1
     (DontCare sample_platform) = Inr (ERR_INVALID_COMBINATION, sample_borrowed, sample_kernel)"
  using Map_DontCare_exclusivity [where sm = sample_fresh and operms = 1 and pf = sample_platform
          and ops = sample_ops and k = sample_kernel and tp = 2 and address = 0 and perms = 1]
        Map_DontCare_exclusivity [where sm = sample_borrowed and operms = "DontCare sample_platform"
          and pf = sample_platform and ops = sample_ops and k = sample_kernel and tp = 2
          and address = "0x10000000" and perms = 1]
  by (simp add: sample_fresh_def sample_borrowed_def sample_platform_def)

text \<open>
  Claim C3, for the calls that reach the lookup. Take a Map call that passes the
  permission checks and whose address is 0 or inside the band, where the area found
  starts at or below the effective target address and neither the end of the area nor
  the end of the target range exceeds 32 bits. It succeeds only if the area is free and
  its bounds contain \<open>[target_address, target_address + size)\<close>; when the area is not
  free or does not contain the range, Map returns \<open>ERR_INVALID_ADDRESS_STATE\<close>.
\<close>
theorem Map_address_containment:
  assumes pc: "permission_checks_pass pf sm tp perms operms"
    and ab: "address = 0 \<or> inside_band pf address (size_sm sm)"
    and fv: "FindVMA ops (vm_manager (processes k tp)) (target_address pf sm address) = Some vma"
    and cov: "unat (base_vma vma) \<le> unat (target_address pf sm address)"
    and nw1: "unat (target_address pf sm address) + unat (size_sm sm) < 2 ^ 32"
    and nw2: "unat (base_vma vma) + unat (size_vma vma) < 2 ^ 32"
  shows "(Map ops pf sm k tp address perms operms = Inr (RESULT_SUCCESS, sm', k') \<longrightarrow>
            type_vma vma = Free \<and> vma_contains vma (target_address pf sm address) (size_sm sm)) \<and>
         (\<not> (type_vma vma = Free \<and>
              vma_contains vma (target_address pf sm address) (size_sm sm)) \<longrightarrow>
            Map ops pf sm k tp address perms operms = Inr (ERR_INVALID_ADDRESS_STATE, sm, k))"
proof -
  have "unat (address + size_sm sm) \<le> unat address + unat (size_sm sm)"
    by (rule unat_plus_le)
  with ab have band: "\<not> (address \<noteq> 0 \<and>
      (address < HEAP_VADDR pf \<or> SHARED_MEMORY_VADDR_END pf \<le> address + size_sm sm))"
    by (auto simp: inside_band_def word_less_nat_alt word_le_nat_alt)
  have "(base_vma vma + size_vma vma < target_address pf sm address + size_sm sm) =
        (unat (base_vma vma) + unat (size_vma vma) <
         unat (target_address pf sm address) + unat (size_sm sm))"
    using nw1 nw2 by (simp add: word_less_nat_alt unat_plus_no_wrap)
  with cov have cmp: "(base_vma vma + size_vma vma < target_address pf sm address + size_sm sm) =
        (\<not> vma_contains vma (target_address pf sm address) (size_sm sm))"
    by (auto simp: vma_contains_def)
  have m: "Map ops pf sm k tp address perms operms =
     (if type_vma vma \<noteq> Free \<or> \<not> vma_contains vma (target_address pf sm address) (size_sm sm)
      then Inr (ERR_INVALID_ADDRESS_STATE, sm, k)
      else (case map_blocks ops pf perms (vm_manager (processes k tp))
                   (target_address pf sm address) (backing_blocks sm) of
                  Inl f \<Rightarrow> Inl f
                | Inr vm \<Rightarrow>
                    Inr (RESULT_SUCCESS, sm,
                         k\<lparr>processes := (processes k)
                              (tp := (processes k tp)\<lparr>vm_manager := vm\<rparr>)\<rparr>)))"
    using band fv cmp by (auto simp: Map_after_permission_checks [OF pc])
  show ?thesis
    by (simp add: m split: sum.splits)
qed

text \<open>
  A page mapped into the free area of the band, and a range that the allocated area
  found for it does not contain.
\<close>
theorem Map_address_containment_witness:
  "Map sample_ops sample_platform sample_borrowed sample_kernel 2 0x10000000 1 1 =
     Inr (RESULT_SUCCESS, sample_borrowed, sample_kernel_mapped 0x10000000) \<and>
   vma_contains \<lparr>type_vma = Free, base_vma = 0x08001000, size_vma = 0x0BFFF000\<rparr>
     (target_address sample_platform sample_borrowed 0x10000000) (size_sm sample_borrowed) \<and>
   \<not> vma_contains \<lparr>type_vma = AllocatedMemoryBlock, base_vma = 0x08000000, size_vma = 0x1000\<rparr>
     (target_address sample_platform sample_borrowed 0x08000800) (size_sm sample_borrowed) \<and>
   Map sample_ops sample_platform sample_borrowed sample_kernel 2 0x08000800 1 1 =
     Inr (ERR_INVALID_ADDRESS_STATE, sample_borrowed, sample_kernel)"
proof -
  let ?v = "\<lparr>type_vma = Free, base_vma = 0x08001000, size_vma = 0x0BFFF000\<rparr>"
  let ?w = "\<lparr>type_vma = AllocatedMemoryBlock, base_vma = 0x08000000, size_vma = 0x1000\<rparr>"
  have t: "target_address sample_platform sample_borrowed 0x10000000 = 0x10000000"
    "target_address sample_platform sample_borrowed 0x08000800 = 0x08000800"
    by (simp_all add: target_address_def sample_borrowed_def)
  have f: "FindVMA sample_ops (vm_manager (processes sample_kernel 2)) 0x10000000 = Some ?v"
    "FindVMA sample_ops (vm_manager (processes sample_kernel 2)) 0x08000800 = Some ?w"
    by (simp_all add: sample_defs)
  have i: "inside_band sample_platform 0x10000000 (size_sm sample_borrowed)"
    "inside_band sample_platform 0x08000800 (size_sm sample_borrowed)"
    by (simp_all add: inside_band_def sample_borrowed_def sample_platform_def)
  have c: "\<not> vma_contains ?w 0x08000800 (size_sm sample_borrowed)"
    by (simp add: vma_contains_def sample_borrowed_def)
  have n: "unat (0x10000000::u32) + unat (size_sm sample_borrowed) < 2 ^ 32"
    "unat (0x08000800::u32) + unat (size_sm sample_borrowed) < 2 ^ 32"
    "unat (base_vma ?v) + unat (size_vma ?v) < 2 ^ 32"
    "unat (base_vma ?w) + unat (size_vma ?w) < 2 ^ 32"
    "unat (base_vma ?v) \<le> unat (0x10000000::u32)"
    "unat (base_vma ?w) \<le> unat (0x08000800::u32)"
    by (simp_all add: sample_borrowed_def)
  show ?thesis
    using m_success c
      Map_address_containment [where pf = sample_platform and sm = sample_borrowed and tp = 2
        and perms = 1 and operms = 1 and address = "0x10000000" and ops = sample_ops
        and k = sample_kernel and vma = ?v and sm' = sample_borrowed
        and k' = "sample_kernel_mapped 0x10000000"]
      Map_address_containment [where pf = sample_platform and sm = sample_borrowed and tp = 2
        and perms = 1 and operms = 1 and address = "0x08000800" and ops = sample_ops
        and k = sample_kernel and vma = ?w]
      sample_checks_borrowed t f i n
    by simp
qed

text \<open>
  Claim C3 as it is written fails: a call that passes the permission checks, with an
  address below the band where the area found is not free, returns
  \<open>ERR_INVALID_ADDRESS\<close>, not \<open>ERR_INVALID_ADDRESS_STATE\<close>.
\<close>
theorem Map_address_containment_counterexample:
  "permission_checks_pass sample_platform sample_fresh 2 1 (DontCare sample_platform) \<and>
   FindVMA sample_ops (vm_manager (processes sample_kernel 2))
     (target_address sample_platform sample_fresh 0x00100000) =
     Some \<lparr>type_vma = AllocatedMemoryBlock, base_vma = 0x00100000, size_vma = 0x1000\<rparr> \<and>
   Map sample_ops sample_platform sample_fresh sample_kernel 2 0x00100000 1
     (DontCare sample_platform) = Inr (ERR_INVALID_ADDRESS, sample_fresh, sample_kernel) \<and>
   ERR_INVALID_ADDRESS \<noteq> ERR_INVALID_ADDRESS_STATE"
proof -
  have "FindVMA sample_ops (vm_manager (processes sample_kernel 2))
     (target_address sample_platform sample_fresh 0x00100000) =
     Some \<lparr>type_vma = AllocatedMemoryBlock, base_vma = 0x00100000, size_vma = 0x1000\<rparr>"
    by (simp add: target_address_def sample_defs)
  moreover have "Map sample_ops sample_platform sample_fresh sample_kernel 2 0x00100000 1
     (DontCare sample_platform) = Inr (ERR_INVALID_ADDRESS, sample_fresh, sample_kernel)"
    by (simp add: Map_def own_other_permissions_def sample_fresh_def sample_platform_def)
  ultimately show ?thesis using sample_checks_fresh by simp
qed

text \<open>
  Claim C4. When the \<open>base_address\<close> of the object and the requested address are both 0,
  the effective target address is \<open>linear_heap_phys_offset + LINEAR_HEAP_VADDR\<close>. A Map
  call leaves the object as it is, so the next call with address 0 computes the same
  address, and a successful call has bound the backing blocks from that address on.
\<close>
theorem Map_zero_address_placement:
  "base_address sm = 0 \<Longrightarrow>
   target_address pf sm 0 = linear_heap_phys_offset sm + LINEAR_HEAP_VADDR pf \<and>
   (Map ops pf sm k tp 0 perms operms = Inr (rc, sm', k') \<longrightarrow>
      target_address pf sm' 0 = target_address pf sm 0 \<and>
      (rc = RESULT_SUCCESS \<longrightarrow>
         map_blocks ops pf perms (vm_manager (processes k tp))
           (linear_heap_phys_offset sm + LINEAR_HEAP_VADDR pf) (backing_blocks sm) =
         Inr (vm_manager (processes k' tp))))"
proof (intro conjI impI)
  assume b: "base_address sm = 0"
  then show t: "target_address pf sm 0 = linear_heap_phys_offset sm + LINEAR_HEAP_VADDR pf"
    by (simp add: target_address_def)
  assume m: "Map ops pf sm k tp 0 perms operms = Inr (rc, sm', k')"
  then have "sm' = sm" by (rule Map_object_unchanged)
  then show "target_address pf sm' 0 = target_address pf sm 0" by simp
  assume "rc = RESULT_SUCCESS"
  with m t show "map_blocks ops pf perms (vm_manager (processes k tp))
           (linear_heap_phys_offset sm + LINEAR_HEAP_VADDR pf) (backing_blocks sm) =
         Inr (vm_manager (processes k' tp))"
    by (auto simp: Map_def split: if_splits option.splits sum.splits)
qed


text \<open>The fresh sample object, at offset 0 of the linear heap, is placed at 0x14000000.\<close>
theorem Map_zero_address_placement_witness:
  "base_address sample_fresh = 0 \<and>
   target_address sample_platform sample_fresh 0 = 0x14000000 \<and>
   Map sample_ops sample_platform sample_fresh sample_kernel 2 0 1 (DontCare sample_platform) =
     Inr (RESULT_SUCCESS, sample_fresh, sample_kernel_mapped 0x14000000) \<and>
   map_blocks sample_ops sample_platform 1 (vm_manager (processes sample_kernel 2)) 0x14000000
     (backing_blocks sample_fresh) =
     Inr (vm_manager (processes (sample_kernel_mapped 0x14000000) 2))"
proof -
  have b: "base_address sample_fresh = 0"
    and l: "linear_heap_phys_offset sample_fresh + LINEAR_HEAP_VADDR sample_platform = 0x14000000"
    and d: "DontCare sample_platform = 0x10000000"
    by (simp_all add: sample_fresh_def sample_platform_def)
  show ?thesis
    using b l d m_success2
      Map_zero_address_placement [where sm = sample_fresh and pf = sample_platform
        and ops = sample_ops and k = sample_kernel and tp = 2 and perms = 1
        and operms = "DontCare sample_platform" and rc = RESULT_SUCCESS
        and sm' = sample_fresh and k' = "sample_kernel_mapped 0x14000000"]
    by simp
qed

text \<open>
  Claim C5. When Map returns one of \<open>ERR_INVALID_COMBINATION\<close>, \<open>ERR_WRONG_PERMISSION\<close>,
  \<open>ERR_INVALID_ADDRESS\<close> and \<open>ERR_INVALID_ADDRESS_STATE\<close>, the object and the kernel, and
  with it the address space of the target process, are as they were before the call.
\<close>
theorem Map_errors_leave_state:
  "Map ops pf sm k tp address perms operms = Inr (rc, sm', k') \<Longrightarrow>
   rc \<in> {ERR_INVALID_COMBINATION, ERR_WRONG_PERMISSION, ERR_INVALID_ADDRESS,
          ERR_INVALID_ADDRESS_STATE} \<Longrightarrow>
   sm' = sm \<and> k' = k"
  using Map_object_unchanged [of ops pf sm k tp address perms operms rc sm' k']
        Map_error_kernel_unchanged [of ops pf sm k tp address perms operms rc sm' k']
  by auto


text \<open>A call that is rejected at the last check, on an allocated area.\<close>
theorem Map_errors_leave_state_witness:
  "Map sample_ops sample_platform sample_fresh sample_kernel 2 0x08000000 1
     (DontCare sample_platform) =
     Inr (ERR_INVALID_ADDRESS_STATE, sample_fresh, sample_kernel) \<and>
   ERR_INVALID_ADDRESS_STATE \<in> {ERR_INVALID_COMBINATION, ERR_WRONG_PERMISSION,
      ERR_INVALID_ADDRESS, ERR_INVALID_ADDRESS_STATE} \<and>
   sample_fresh = sample_fresh \<and> sample_kernel = sample_kernel"
proof -
  have m: "Map sample_ops sample_platform sample_fresh sample_kernel 2 0x08000000 1
     (DontCare sample_platform) =
     Inr (ERR_INVALID_ADDRESS_STATE, sample_fresh, sample_kernel)"
    by (simp add: Map_def own_other_permissions_def target_address_def sample_defs)
  have e: "ERR_INVALID_ADDRESS_STATE \<in> {ERR_INVALID_COMBINATION, ERR_WRONG_PERMISSION,
      ERR_INVALID_ADDRESS, ERR_INVALID_ADDRESS_STATE}" by simp
  show ?thesis
    using m e Map_errors_leave_state [OF m e] by simp
qed

text \<open>
  Claim C9, for the calls that reach the address check. A Map call with a nonzero
  address that passes the permission checks returns \<open>ERR_INVALID_ADDRESS\<close> if the range
  \<open>[address, address + size)\<close> starts below \<open>HEAP_VADDR\<close> or ends beyond
  \<open>SHARED_MEMORY_VADDR_END\<close> and \<open>address + size\<close> fits in 32 bits. And a Map call returns
  \<open>ERR_INVALID_ADDRESS\<close> only if the address is not 0 and the range does not both start at
  or above \<open>HEAP_VADDR\<close> and end before \<open>SHARED_MEMORY_VADDR_END\<close>: a range that does passes
  the check.
\<close>
theorem Map_address_band:
  "(address \<noteq> 0 \<and> permission_checks_pass pf sm tp perms operms \<and>
    outside_band pf address (size_sm sm) \<and> unat address + unat (size_sm sm) < 2 ^ 32 \<longrightarrow>
      Map ops pf sm k tp address perms operms = Inr (ERR_INVALID_ADDRESS, sm, k)) \<and>
   (map_sum id fst (Map ops pf sm k tp address perms operms) = Inr ERR_INVALID_ADDRESS \<longrightarrow>
      address \<noteq> 0 \<and> \<not> inside_band pf address (size_sm sm))"
proof (intro conjI impI)
  assume o: "address \<noteq> 0 \<and> permission_checks_pass pf sm tp perms operms \<and>
    outside_band pf address (size_sm sm) \<and> unat address + unat (size_sm sm) < 2 ^ 32"
  then have "unat (address + size_sm sm) = unat address + unat (size_sm sm)"
    by (simp add: unat_plus_no_wrap)
  with o have "address < HEAP_VADDR pf \<or> SHARED_MEMORY_VADDR_END pf \<le> address + size_sm sm"
    by (auto simp: outside_band_def word_less_nat_alt word_le_nat_alt)
  with o show "Map ops pf sm k tp address perms operms = Inr (ERR_INVALID_ADDRESS, sm, k)"
    by (simp add: Map_after_permission_checks)
next
  assume r: "map_sum id fst (Map ops pf sm k tp address perms operms) = Inr ERR_INVALID_ADDRESS"
  have c: "permission_checks_pass pf sm tp perms operms"
  proof (rule ccontr)
    assume "\<not> permission_checks_pass pf sm tp perms operms"
    from Map_permission_errors [OF this, of ops k address] r show False
      by (simp split: if_splits)
  qed
  from r have b: "address \<noteq> 0 \<and>
      (address < HEAP_VADDR pf \<or> SHARED_MEMORY_VADDR_END pf \<le> address + size_sm sm)"
    by (auto simp: Map_after_permission_checks [OF c] split: if_splits option.splits sum.splits)
  then show "address \<noteq> 0" by simp
  have "unat (address + size_sm sm) \<le> unat address + unat (size_sm sm)"
    by (rule unat_plus_le)
  with b show "\<not> inside_band pf address (size_sm sm)"
    by (auto simp: inside_band_def word_less_nat_alt word_le_nat_alt)
qed

text \<open>An address below the band is rejected, and it is not inside the band.\<close>
theorem Map_address_band_witness:
  "(0x00100000::u32) \<noteq> 0 \<and>
   permission_checks_pass sample_platform sample_fresh 2 1 (DontCare sample_platform) \<and>
   outside_band sample_platform 0x00100000 (size_sm sample_fresh) \<and>
   Map sample_ops sample_platform sample_fresh sample_kernel 2 0x00100000 1
     (DontCare sample_platform) = Inr (ERR_INVALID_ADDRESS, sample_fresh, sample_kernel) \<and>
   \<not> inside_band sample_platform 0x00100000 (size_sm sample_fresh)"
proof -
  note t = Map_address_band [where address = "0x00100000" and pf = sample_platform
        and sm = sample_fresh and tp = 2 and perms = 1 and operms = "DontCare sample_platform"
        and ops = sample_ops and k = sample_kernel]
  have z: "(0x00100000::u32) \<noteq> 0"
    and o: "outside_band sample_platform 0x00100000 (size_sm sample_fresh)"
    and n: "unat (0x00100000::u32) + unat (size_sm sample_fresh) < 2 ^ 32"
    by (simp_all add: outside_band_def sample_fresh_def sample_platform_def)
  have m: "Map sample_ops sample_platform sample_fresh sample_kernel 2 0x00100000 1
     (DontCare sample_platform) = Inr (ERR_INVALID_ADDRESS, sample_fresh, sample_kernel)"
    using t z sample_checks_fresh o n by blast
  then have "map_sum id fst (Map sample_ops sample_platform sample_fresh sample_kernel 2
     0x00100000 1 (DontCare sample_platform)) = Inr ERR_INVALID_ADDRESS"
    by simp
  with t have i: "\<not> inside_band sample_platform 0x00100000 (size_sm sample_fresh)"
    by blast
  show ?thesis
    using z sample_checks_fresh o m i by blast
qed

text \<open>
  Claim C9 as it is written fails: with an address below the band, a call that fails
  a permission check returns \<open>ERR_INVALID_COMBINATION\<close>, not \<open>ERR_INVALID_ADDRESS\<close>.
\<close>
theorem Map_address_band_counterexample:
  "(0x00100000::u32) \<noteq> 0 \<and>
   outside_band sample_platform 0x00100000 (size_sm sample_fresh) \<and>
   Map sample_ops sample_platform sample_fresh sample_kernel 2 0x00100000 1 1 =
     Inr (ERR_INVALID_COMBINATION, sample_fresh, sample_kernel) \<and>
   ERR_INVALID_COMBINATION \<noteq> ERR_INVALID_ADDRESS"
  by (simp add: Map_def outside_band_def sample_fresh_def sample_platform_def)

subsection \<open>Creation and destruction\<close>

text \<open>
  The destructor's loop changes the SYSTEM region only: it gives it every interval of
  \<open>holding_memory\<close> once, in order.
\<close>
lemma fold_free_interval_processes:
  "processes (fold (free_interval ops) xs k) = processes k"
  by (induction xs arbitrary: k) (simp_all add: free_interval_def)

lemma fold_free_interval_regions:
  "memory_regions (fold (free_interval ops) xs k) =
     (memory_regions k)(SYSTEM :=
        fold (\<lambda>i mr. Free_region ops mr (fst i) (snd i - fst i)) xs (memory_regions k SYSTEM))"
  by (induction xs arbitrary: k) (simp_all add: free_interval_def)

lemma destroy_regions:
  "memory_regions (destroy ops pf k sm) =
     (memory_regions k)(SYSTEM :=
        fold (\<lambda>i mr. Free_region ops mr (fst i) (snd i - fst i)) (holding_memory sm)
          (memory_regions k SYSTEM))"
  by (simp add: destroy_def Let_def fold_free_interval_regions split: option.splits)

lemma destroy_processes:
  "processes (destroy ops pf k sm) =
     (if base_address sm \<noteq> 0 then
        (case owner_process sm of
           None \<Rightarrow> processes k
         | Some p \<Rightarrow> (processes k)
             (p := (processes k p)\<lparr>vm_manager :=
                snd (ChangeMemoryState ops (vm_manager (processes k p)) (base_address sm)
                       (size_sm sm) Locked (VMAPermission_None pf) Private
                       (VMAPermission_ReadWrite pf))\<rparr>))
      else processes k)"
  by (simp add: destroy_def Let_def fold_free_interval_processes split: option.splits)

lemma destroy_nothing_held:
  "base_address sm = 0 \<Longrightarrow> holding_memory sm = [] \<Longrightarrow> destroy ops pf k sm = k"
  by (simp add: destroy_def)

lemma CreateSharedMemory_fresh:
  "CreateSharedMemory ops pf k owner sz perms operms 0 region nm =
     (case LinearAllocate ops (memory_regions k region) sz of
        None \<Rightarrow> Inl AssertionFailed
      | Some (offset, mr) \<Rightarrow>
          Inr (Inr \<lparr>owner_process = owner, name = nm, size_sm = sz, permissions = perms,
                    other_permissions = operms, base_address = 0,
                    backing_blocks = [(unat offset, sz)],
                    holding_memory = add_Interval (offset, offset + sz) [],
                    linear_heap_phys_offset = offset\<rparr>,
               (case owner of
                  None \<Rightarrow> k\<lparr>memory_regions := (memory_regions k)(region := mr),
                              fcram := zero_fill (fcram k) (unat offset) (unat offset + unat sz)\<rparr>
                | Some p \<Rightarrow>
                    k\<lparr>memory_regions := (memory_regions k)(region := mr),
                      fcram := zero_fill (fcram k) (unat offset) (unat offset + unat sz),
                      processes := (processes k)
                        (p := (processes k p)\<lparr>memory_used :=
                                memory_used (processes k p) + sz\<rparr>)\<rparr>)))"
  by (simp add: CreateSharedMemory_def new_SharedMemory_def Let_def
        split: option.splits prod.splits)

lemma CreateSharedMemory_borrow:
  "address \<noteq> 0 \<Longrightarrow>
   CreateSharedMemory ops pf k (Some p) sz perms operms address region nm = Inr (Inr sm, k') \<Longrightarrow>
   sm = \<lparr>owner_process = Some p, name = nm, size_sm = sz, permissions = perms,
         other_permissions = operms, base_address = address,
         backing_blocks = backing_blocks sm, holding_memory = [],
         linear_heap_phys_offset = 0\<rparr> \<and>
   ChangeMemoryState ops (vm_manager (processes k p)) address sz Private
     (VMAPermission_ReadWrite pf) Locked (ConvertPermissions pf perms) =
     (RESULT_SUCCESS, vm_manager (processes k' p)) \<and>
   GetBackingBlocksForRange ops (vm_manager (processes k' p)) address sz =
     Inr (backing_blocks sm)"
  by (auto simp: CreateSharedMemory_def new_SharedMemory_def Let_def prod_eq_iff
        split: if_splits sum.splits)

subsection \<open>Creation and destruction on the sample instance\<close>

lemma create_fresh:
  "CreateSharedMemory sample_ops sample_platform sample_kernel (Some 1) 0x1000 3 1 0 BASE ''fresh'' =
     Inr (Inr sample_fresh, sample_kernel_created)"
  by (simp add: CreateSharedMemory_def new_SharedMemory_def add_Interval_def sample_ops_def
        sample_LinearAllocate_def sample_kernel_def sample_fresh_def sample_kernel_created_def
        sample_kernel_allocated_def)

lemma create_second:
  "CreateSharedMemory sample_ops sample_platform sample_kernel_created (Some 1) 0x1000 3 1 0 BASE
     ''second'' = Inr (Inr sample_second, sample_kernel_second)"
  by (simp add: CreateSharedMemory_def new_SharedMemory_def add_Interval_def sample_ops_def
        sample_LinearAllocate_def sample_kernel_def sample_second_def sample_kernel_created_def
        sample_kernel_allocated_def sample_kernel_second_def zero_fill_def fun_eq_iff)

lemma create_fresh_no_owner:
  "CreateSharedMemory sample_ops sample_platform sample_kernel None 0x1000 3 1 0 BASE ''fresh'' =
     Inr (Inr (sample_fresh\<lparr>owner_process := None\<rparr>), sample_kernel_allocated)"
  by (simp add: CreateSharedMemory_def new_SharedMemory_def add_Interval_def sample_ops_def
        sample_LinearAllocate_def sample_kernel_def sample_fresh_def sample_kernel_allocated_def)

lemma create_borrowed:
  "CreateSharedMemory sample_ops sample_platform sample_kernel (Some 1) 0x1000 1 1 0x08000000 BASE
     ''borrowed'' = Inr (Inr sample_borrowed, sample_kernel_locked)"
  by (simp add: CreateSharedMemory_def new_SharedMemory_def ConvertPermissions_def sample_ops_def
        sample_ChangeMemoryState_def sample_in_state_def sample_set_state_def
        sample_GetBackingBlocksForRange_def sample_covers_def sample_platform_def
        sample_kernel_def sample_vm_def sample_borrowed_def sample_kernel_locked_def
        sample_vm_locked_def)

lemma create_applet_full:
  "CreateSharedMemoryForApplet sample_ops sample_platform sample_kernel 0 0x1000 3 3 ''applet'' =
     Inr (sample_applet, sample_kernel_applet)"
  by (simp add: CreateSharedMemoryForApplet_def new_SharedMemory_def applet_block_def Let_def
        sample_ops_def sample_HeapAllocate_def sample_platform_def sample_kernel_def
        sample_applet_def sample_kernel_applet_def)

lemma sample_no_space:
  "LinearAllocate sample_ops (memory_regions sample_kernel BASE) 0x02000000 = None"
  by (simp add: sample_ops_def sample_LinearAllocate_def sample_kernel_def)

lemma sample_unlock:
  "ChangeMemoryState sample_ops sample_vm_locked 0x08000000 0x1000 Locked 0 Private 3 =
     (RESULT_SUCCESS, sample_vm)"
  by (simp add: sample_ops_def sample_ChangeMemoryState_def sample_in_state_def
        sample_set_state_def sample_vm_def sample_vm_locked_def)

subsection \<open>The claims about creation and destruction\<close>

text \<open>
  Claim C6. An object created by the fresh path from a region should give its bytes back
  to that region when it is destroyed. The destructor frees into the SYSTEM region
  whatever region the storage came from: for an object of one page allocated from BASE,
  BASE is after the destruction as it was after the allocation, with the page still
  handed out and nothing given back, and SYSTEM has been given the interval
  \<open>[0, 0x1000)\<close> that it never handed out.
\<close>
theorem destroy_returns_BASE_allocation_to_SYSTEM:
  "CreateSharedMemory sample_ops sample_platform sample_kernel (Some 1) 0x1000 3 1 0 BASE ''fresh'' =
     Inr (Inr sample_fresh, sample_kernel_created) \<and>
   memory_regions sample_kernel BASE = (0, 0x01000000, []) \<and>
   memory_regions sample_kernel_created BASE = (0x1000, 0x01000000, []) \<and>
   memory_regions sample_kernel_created SYSTEM = (0, 0x01000000, []) \<and>
   memory_regions (destroy sample_ops sample_platform sample_kernel_created sample_fresh) BASE =
     (0x1000, 0x01000000, []) \<and>
   memory_regions (destroy sample_ops sample_platform sample_kernel_created sample_fresh) SYSTEM =
     (0, 0x01000000, [(0, 0x1000)])"
proof -
  have b: "memory_regions sample_kernel BASE = (0, 0x01000000, [])"
    and c: "memory_regions sample_kernel_created BASE = (0x1000, 0x01000000, [])"
    and s: "memory_regions sample_kernel_created SYSTEM = (0, 0x01000000, [])"
    by (simp_all add: sample_kernel_created_def sample_kernel_allocated_def sample_kernel_def)
  have d: "memory_regions (destroy sample_ops sample_platform sample_kernel_created
      sample_fresh) BASE = (0x1000, 0x01000000, [])"
    by (simp add: destroy_regions c)
  have e: "memory_regions (destroy sample_ops sample_platform sample_kernel_created
      sample_fresh) SYSTEM = (0, 0x01000000, [(0, 0x1000)])"
    by (simp add: destroy_regions s) (simp add: sample_fresh_def sample_ops_def sample_Free_def)
  show ?thesis
    using create_fresh b c s d e by blast
qed

text \<open>
  Claim C7. When the object has a nonzero \<open>base_address\<close> and an owner, the destructor
  asks the owner's address space to take the range \<open>[base_address, base_address + size)\<close>
  from Locked with \<open>VMAPermission::None\<close> to Private with read-write permission, and the
  owner's address space is what that call leaves; no other process changes. Without an
  owner no process changes. For an object made by the borrowing path this is the range,
  the process and the state (Private, read-write) that creation started from when it
  locked the range.
\<close>
theorem destroy_restores_owner_range:
  "(base_address sm \<noteq> 0 \<and> owner_process sm = Some p \<longrightarrow>
      processes (destroy ops pf k sm) =
        (processes k)
          (p := (processes k p)\<lparr>vm_manager :=
             snd (ChangeMemoryState ops (vm_manager (processes k p)) (base_address sm)
                    (size_sm sm) Locked (VMAPermission_None pf) Private
                    (VMAPermission_ReadWrite pf))\<rparr>)) \<and>
   (owner_process sm = None \<longrightarrow> processes (destroy ops pf k sm) = processes k) \<and>
   (address \<noteq> 0 \<and>
    CreateSharedMemory ops pf k0 (Some p) sz perms operms address region nm = Inr (Inr sm, k) \<longrightarrow>
      base_address sm = address \<and> size_sm sm = sz \<and> owner_process sm = Some p \<and>
      ChangeMemoryState ops (vm_manager (processes k0 p)) address sz Private
        (VMAPermission_ReadWrite pf) Locked (ConvertPermissions pf perms) =
        (RESULT_SUCCESS, vm_manager (processes k p)))"
proof (intro conjI impI)
  assume "base_address sm \<noteq> 0 \<and> owner_process sm = Some p"
  then show "processes (destroy ops pf k sm) =
        (processes k)
          (p := (processes k p)\<lparr>vm_manager :=
             snd (ChangeMemoryState ops (vm_manager (processes k p)) (base_address sm)
                    (size_sm sm) Locked (VMAPermission_None pf) Private
                    (VMAPermission_ReadWrite pf))\<rparr>)"
    by (simp add: destroy_processes)
next
  assume "owner_process sm = None"
  then show "processes (destroy ops pf k sm) = processes k"
    by (simp add: destroy_processes)
next
  assume c: "address \<noteq> 0 \<and>
    CreateSharedMemory ops pf k0 (Some p) sz perms operms address region nm = Inr (Inr sm, k)"
  then have a: "address \<noteq> 0"
    and m: "CreateSharedMemory ops pf k0 (Some p) sz perms operms address region nm =
              Inr (Inr sm, k)"
    by simp_all
  note b = CreateSharedMemory_borrow [OF a m]
  from b have "sm = \<lparr>owner_process = Some p, name = nm, size_sm = sz, permissions = perms,
         other_permissions = operms, base_address = address,
         backing_blocks = backing_blocks sm, holding_memory = [],
         linear_heap_phys_offset = 0\<rparr>" by blast
  then have f: "base_address sm = address \<and> size_sm sm = sz \<and> owner_process sm = Some p"
    by (metis shared_memory.select_convs(1,3,6))
  from b have "ChangeMemoryState ops (vm_manager (processes k0 p)) address sz Private
        (VMAPermission_ReadWrite pf) Locked (ConvertPermissions pf perms) =
        (RESULT_SUCCESS, vm_manager (processes k p))" by blast
  with f show "base_address sm = address" "size_sm sm = sz" "owner_process sm = Some p"
    "ChangeMemoryState ops (vm_manager (processes k0 p)) address sz Private
        (VMAPermission_ReadWrite pf) Locked (ConvertPermissions pf perms) =
        (RESULT_SUCCESS, vm_manager (processes k p))"
    by simp_all
qed

text \<open>
  On the sample instance: creation locks the private page of process 1 and destruction
  of the object gives the processes back as they were; the applet object has no owner.
\<close>
theorem destroy_restores_owner_range_witness:
  "base_address sample_borrowed \<noteq> 0 \<and> owner_process sample_borrowed = Some 1 \<and>
   CreateSharedMemory sample_ops sample_platform sample_kernel (Some 1) 0x1000 1 1 0x08000000 BASE
     ''borrowed'' = Inr (Inr sample_borrowed, sample_kernel_locked) \<and>
   vm_manager (processes sample_kernel_locked 1) = sample_vm_locked \<and>
   processes (destroy sample_ops sample_platform sample_kernel_locked sample_borrowed) =
     processes sample_kernel \<and>
   owner_process sample_applet = None \<and>
   processes (destroy sample_ops sample_platform sample_kernel sample_applet) =
     processes sample_kernel"
proof -
  have b: "base_address sample_borrowed \<noteq> 0 \<and> owner_process sample_borrowed = Some 1"
    by (simp add: sample_borrowed_def)
  have n: "owner_process sample_applet = None"
    by (simp add: sample_applet_def)
  have v: "vm_manager (processes sample_kernel_locked 1) = sample_vm_locked"
    by (simp add: sample_kernel_locked_def)
  have c: "VMAPermission_None sample_platform = 0" "VMAPermission_ReadWrite sample_platform = 3"
    "base_address sample_borrowed = 0x08000000" "size_sm sample_borrowed = 0x1000"
    by (simp_all add: sample_platform_def sample_borrowed_def)
  have "processes (destroy sample_ops sample_platform sample_kernel_locked sample_borrowed) =
     (processes sample_kernel_locked)
       (1 := (processes sample_kernel_locked 1)\<lparr>vm_manager :=
          snd (ChangeMemoryState sample_ops (vm_manager (processes sample_kernel_locked 1))
                 (base_address sample_borrowed) (size_sm sample_borrowed) Locked
                 (VMAPermission_None sample_platform) Private
                 (VMAPermission_ReadWrite sample_platform))\<rparr>)"
    using b destroy_restores_owner_range [where sm = sample_borrowed and p = 1
        and ops = sample_ops and pf = sample_platform and k = sample_kernel_locked]
    by blast
  then have r: "processes (destroy sample_ops sample_platform sample_kernel_locked
     sample_borrowed) =
     (processes sample_kernel_locked)
       (1 := (processes sample_kernel_locked 1)\<lparr>vm_manager := sample_vm\<rparr>)"
    by (simp only: v c sample_unlock snd_conv)
  have "(processes sample_kernel_locked)
       (1 := (processes sample_kernel_locked 1)\<lparr>vm_manager := sample_vm\<rparr>) =
     processes sample_kernel"
    by (auto simp: fun_eq_iff sample_kernel_locked_def sample_kernel_def)
  with r have d: "processes (destroy sample_ops sample_platform sample_kernel_locked
     sample_borrowed) = processes sample_kernel" by simp
  have a: "processes (destroy sample_ops sample_platform sample_kernel sample_applet) =
     processes sample_kernel"
    using n destroy_restores_owner_range [where sm = sample_applet and ops = sample_ops
        and pf = sample_platform and k = sample_kernel]
    by blast
  show ?thesis
    using b create_borrowed v d n a by blast
qed

text \<open>
  Claim C8, without the applet variant for \<open>base_address\<close>. An object made by
  \<open>CreateSharedMemory\<close> has \<open>base_address = 0\<close> exactly when it was freshly allocated
  (\<open>address = 0\<close>). Its \<open>holding_memory\<close> is empty when the storage was borrowed. When it
  was freshly allocated, \<open>LinearAllocate\<close> of the region of the call has returned the
  offset that the object records, and \<open>holding_memory\<close> is the allocated interval
  \<open>[offset, offset + size)\<close> when that interval is not empty. An object made by the applet
  variant holds the intervals the SYSTEM region allocated, at least one, and its
  \<open>base_address\<close> is \<open>HEAP_VADDR + offset\<close>.
\<close>
theorem creation_base_address_and_holding_memory:
  "(CreateSharedMemory ops pf k owner sz perms operms address region nm = Inr (Inr sm, k') \<longrightarrow>
      (base_address sm = 0) = (address = 0) \<and>
      (address \<noteq> 0 \<longrightarrow> holding_memory sm = []) \<and>
      (address = 0 \<longrightarrow>
         LinearAllocate ops (memory_regions k region) sz =
           Some (linear_heap_phys_offset sm, memory_regions k' region) \<and>
         (\<forall>offset mr. LinearAllocate ops (memory_regions k region) sz = Some (offset, mr) \<and>
            offset < offset + sz \<longrightarrow> holding_memory sm = [(offset, offset + sz)]))) \<and>
   (CreateSharedMemoryForApplet ops pf k offset sz perms operms nm = Inr (sm, k') \<longrightarrow>
      holding_memory sm = fst (HeapAllocate ops (memory_regions k SYSTEM) sz) \<and>
      holding_memory sm \<noteq> [] \<and> base_address sm = HEAP_VADDR pf + offset)"
proof (intro conjI impI allI)
  assume c: "CreateSharedMemory ops pf k owner sz perms operms address region nm = Inr (Inr sm, k')"
  show "(base_address sm = 0) = (address = 0)"
    using c by (auto simp: CreateSharedMemory_def new_SharedMemory_def Let_def
        split: if_splits option.splits sum.splits)
  {
    assume "address \<noteq> 0"
    with c show "holding_memory sm = []"
      by (auto simp: CreateSharedMemory_def new_SharedMemory_def Let_def
          split: if_splits option.splits sum.splits)
  }
  {
    assume "address = 0"
    with c show "LinearAllocate ops (memory_regions k region) sz =
           Some (linear_heap_phys_offset sm, memory_regions k' region)"
      by (auto simp: CreateSharedMemory_fresh split: option.splits)
  }
  {
    fix offset mr
    assume "address = 0"
      and "LinearAllocate ops (memory_regions k region) sz = Some (offset, mr) \<and>
            offset < offset + sz"
    with c show "holding_memory sm = [(offset, offset + sz)]"
      by (auto simp: CreateSharedMemory_fresh add_Interval_def split: option.splits)
  }
next
  assume a: "CreateSharedMemoryForApplet ops pf k offset sz perms operms nm = Inr (sm, k')"
  then show "holding_memory sm = fst (HeapAllocate ops (memory_regions k SYSTEM) sz)"
    by (auto simp: CreateSharedMemoryForApplet_def new_SharedMemory_def Let_def
        split: if_splits)
  from a show "holding_memory sm \<noteq> []"
    by (auto simp: CreateSharedMemoryForApplet_def new_SharedMemory_def Let_def
        split: if_splits)
  from a show "base_address sm = HEAP_VADDR pf + offset"
    by (auto simp: CreateSharedMemoryForApplet_def new_SharedMemory_def Let_def
        split: if_splits)
qed

text \<open>
  The three creators on the sample instance. The fresh object is the second page of the
  BASE region, so the offset that \<open>LinearAllocate\<close> returns is 0x1000 and the interval held
  is \<open>[0x1000, 0x2000)\<close>.
\<close>
theorem creation_base_address_and_holding_memory_witness:
  "CreateSharedMemory sample_ops sample_platform sample_kernel_created (Some 1) 0x1000 3 1 0 BASE
     ''second'' = Inr (Inr sample_second, sample_kernel_second) \<and>
   LinearAllocate sample_ops (memory_regions sample_kernel_created BASE) 0x1000 =
     Some (0x1000, (0x2000, 0x01000000, [])) \<and>
   (0x1000::u32) < 0x1000 + 0x1000 \<and>
   base_address sample_second = 0 \<and>
   linear_heap_phys_offset sample_second = 0x1000 \<and>
   holding_memory sample_second = [(0x1000, 0x1000 + 0x1000)] \<and>
   CreateSharedMemory sample_ops sample_platform sample_kernel (Some 1) 0x1000 1 1 0x08000000 BASE
     ''borrowed'' = Inr (Inr sample_borrowed, sample_kernel_locked) \<and>
   base_address sample_borrowed \<noteq> 0 \<and> holding_memory sample_borrowed = [] \<and>
   CreateSharedMemoryForApplet sample_ops sample_platform sample_kernel 0 0x1000 3 3 ''applet'' =
     Inr (sample_applet, sample_kernel_applet) \<and>
   holding_memory sample_applet \<noteq> [] \<and> base_address sample_applet = 0x08000000"
proof -
  note f = creation_base_address_and_holding_memory [where ops = sample_ops
      and pf = sample_platform and k = sample_kernel_created and owner = "Some 1"
      and sz = "0x1000" and perms = 3 and operms = 1 and address = 0 and region = BASE
      and nm = "''second''" and sm = sample_second and k' = sample_kernel_second]
  note b = creation_base_address_and_holding_memory [where ops = sample_ops
      and pf = sample_platform and k = sample_kernel and owner = "Some 1" and sz = "0x1000"
      and perms = 1 and operms = 1 and address = "0x08000000" and region = BASE
      and nm = "''borrowed''" and sm = sample_borrowed and k' = sample_kernel_locked]
  note a = creation_base_address_and_holding_memory [where ops = sample_ops
      and pf = sample_platform and k = sample_kernel and offset = 0 and sz = "0x1000"
      and perms = 3 and operms = 3 and nm = "''applet''" and sm = sample_applet
      and k' = sample_kernel_applet]
  have l: "(0x1000::u32) < 0x1000 + 0x1000"
    and h: "HEAP_VADDR sample_platform + 0 = 0x08000000" and z: "(0x08000000::u32) \<noteq> 0"
    by (simp_all add: sample_platform_def)
  have r: "memory_regions sample_kernel_second BASE = (0x2000, 0x01000000, [])"
    by (simp add: sample_kernel_second_def)
  have 1: "base_address sample_second = 0" using f create_second by blast
  have "LinearAllocate sample_ops (memory_regions sample_kernel_created BASE) 0x1000 =
      Some (linear_heap_phys_offset sample_second, memory_regions sample_kernel_second BASE)"
    using f create_second by blast
  moreover have "Some (0x1000::u32, (0x2000::u32, 0x01000000::u32, []::Interval list)) =
      Some (linear_heap_phys_offset sample_second, 0x2000, 0x01000000, [])"
    by (simp add: sample_second_def)
  ultimately have 2: "LinearAllocate sample_ops (memory_regions sample_kernel_created BASE) 0x1000 =
      Some (0x1000, (0x2000, 0x01000000, []))"
    by (simp only: r)
  have o: "linear_heap_phys_offset sample_second = 0x1000"
    by (simp add: sample_second_def)
  have 3: "holding_memory sample_second = [(0x1000, 0x1000 + 0x1000)]"
    using f create_second 2 l by blast
  have 4: "base_address sample_borrowed \<noteq> 0" using b create_borrowed z by blast
  have 5: "holding_memory sample_borrowed = []" using b create_borrowed z by blast
  have 6: "holding_memory sample_applet \<noteq> []" using a create_applet_full by blast
  have "base_address sample_applet = HEAP_VADDR sample_platform + 0"
    using a create_applet_full by blast
  then have 7: "base_address sample_applet = 0x08000000" by (simp only: h)
  show ?thesis
    using create_second 2 l 1 o 3 create_borrowed 4 5 create_applet_full 6 7 by blast
qed

text \<open>
  Claim C8 as it is written fails for the applet variant: the object for offset 0 is
  freshly allocated and holds \<open>[0, 0x1000)\<close>, and its \<open>base_address\<close> is 0x08000000.
\<close>
theorem creation_base_address_and_holding_memory_counterexample:
  "CreateSharedMemoryForApplet sample_ops sample_platform sample_kernel 0 0x1000 3 3 ''applet'' =
     Inr (sample_applet, sample_kernel_applet) \<and>
   holding_memory sample_applet = [(0, 0x1000)] \<and>
   base_address sample_applet = 0x08000000 \<and> (0x08000000::u32) \<noteq> 0"
  by (simp add: create_applet_full) (simp add: sample_applet_def)

text \<open>
  Claim C10. With a nonzero address and a null owner \<open>CreateSharedMemory\<close> dereferences
  the null pointer. With address 0 it fails exactly when the region cannot allocate, with
  or without an owner; and when it returns for a null owner, the call for an owner \<open>p\<close>
  returns the same object and kernel, but for the owner recorded in the object and
  \<open>memory_used\<close> of \<open>p\<close> increased by the size. No process changes for a null owner.
\<close>
theorem CreateSharedMemory_null_owner:
  "(address \<noteq> 0 \<longrightarrow>
      CreateSharedMemory ops pf k None sz perms operms address region nm = Inl NullDereference) \<and>
   ((CreateSharedMemory ops pf k None sz perms operms 0 region nm = Inl f) =
      (LinearAllocate ops (memory_regions k region) sz = None \<and> f = AssertionFailed)) \<and>
   ((CreateSharedMemory ops pf k (Some p) sz perms operms 0 region nm = Inl f) =
      (LinearAllocate ops (memory_regions k region) sz = None \<and> f = AssertionFailed)) \<and>
   (CreateSharedMemory ops pf k None sz perms operms 0 region nm = Inr (Inr sm, k') \<longrightarrow>
      processes k' = processes k \<and>
      CreateSharedMemory ops pf k (Some p) sz perms operms 0 region nm =
        Inr (Inr (sm\<lparr>owner_process := Some p\<rparr>),
             k'\<lparr>processes := (processes k')
                  (p := (processes k' p)\<lparr>memory_used := memory_used (processes k' p) + sz\<rparr>)\<rparr>))"
proof (intro conjI impI)
  assume "address \<noteq> 0"
  then show "CreateSharedMemory ops pf k None sz perms operms address region nm =
      Inl NullDereference"
    by (simp add: CreateSharedMemory_def new_SharedMemory_def)
next
  show "(CreateSharedMemory ops pf k None sz perms operms 0 region nm = Inl f) =
      (LinearAllocate ops (memory_regions k region) sz = None \<and> f = AssertionFailed)"
    by (auto simp: CreateSharedMemory_fresh split: option.splits)
next
  show "(CreateSharedMemory ops pf k (Some p) sz perms operms 0 region nm = Inl f) =
      (LinearAllocate ops (memory_regions k region) sz = None \<and> f = AssertionFailed)"
    by (auto simp: CreateSharedMemory_fresh split: option.splits)
next
  assume c: "CreateSharedMemory ops pf k None sz perms operms 0 region nm = Inr (Inr sm, k')"
  then show "processes k' = processes k"
    by (auto simp: CreateSharedMemory_fresh split: option.splits)
  from c show "CreateSharedMemory ops pf k (Some p) sz perms operms 0 region nm =
        Inr (Inr (sm\<lparr>owner_process := Some p\<rparr>),
             k'\<lparr>processes := (processes k')
                  (p := (processes k' p)\<lparr>memory_used := memory_used (processes k' p) + sz\<rparr>)\<rparr>)"
    by (auto simp: CreateSharedMemory_fresh split: option.splits)
qed

text \<open>A null owner with a nonzero address, a region that is too small, and a page.\<close>
theorem CreateSharedMemory_null_owner_witness:
  "(0x08000000::u32) \<noteq> 0 \<and>
   CreateSharedMemory sample_ops sample_platform sample_kernel None 0x1000 1 1 0x08000000 BASE
     ''borrowed'' = Inl NullDereference \<and>
   LinearAllocate sample_ops (memory_regions sample_kernel BASE) 0x02000000 = None \<and>
   CreateSharedMemory sample_ops sample_platform sample_kernel None 0x02000000 3 1 0 BASE
     ''fresh'' = Inl AssertionFailed \<and>
   CreateSharedMemory sample_ops sample_platform sample_kernel (Some 1) 0x02000000 3 1 0 BASE
     ''fresh'' = Inl AssertionFailed \<and>
   CreateSharedMemory sample_ops sample_platform sample_kernel None 0x1000 3 1 0 BASE ''fresh'' =
     Inr (Inr (sample_fresh\<lparr>owner_process := None\<rparr>), sample_kernel_allocated) \<and>
   processes sample_kernel_allocated = processes sample_kernel \<and>
   CreateSharedMemory sample_ops sample_platform sample_kernel (Some 1) 0x1000 3 1 0 BASE ''fresh'' =
     Inr (Inr (sample_fresh\<lparr>owner_process := None\<rparr>\<lparr>owner_process := Some 1\<rparr>),
          sample_kernel_allocated\<lparr>processes := (processes sample_kernel_allocated)
            (1 := (processes sample_kernel_allocated 1)\<lparr>memory_used :=
                    memory_used (processes sample_kernel_allocated 1) + 0x1000\<rparr>)\<rparr>)"
proof -
  have z: "(0x08000000::u32) \<noteq> 0" by simp
  note n = CreateSharedMemory_null_owner [where address = "0x08000000" and ops = sample_ops
      and pf = sample_platform and k = sample_kernel and sz = "0x1000" and perms = 1
      and operms = 1 and region = BASE and nm = "''borrowed''"]
  note a = CreateSharedMemory_null_owner [where ops = sample_ops and pf = sample_platform
      and k = sample_kernel and sz = "0x02000000" and perms = 3 and operms = 1 and region = BASE
      and nm = "''fresh''" and f = AssertionFailed and p = 1]
  note c = CreateSharedMemory_null_owner [where ops = sample_ops and pf = sample_platform
      and k = sample_kernel and sz = "0x1000" and perms = 3 and operms = 1 and region = BASE
      and nm = "''fresh''" and p = 1 and sm = "sample_fresh\<lparr>owner_process := None\<rparr>"
      and k' = sample_kernel_allocated]
  have 1: "CreateSharedMemory sample_ops sample_platform sample_kernel None 0x1000 1 1
     0x08000000 BASE ''borrowed'' = Inl NullDereference"
    using n z by blast
  have 2: "CreateSharedMemory sample_ops sample_platform sample_kernel None 0x02000000 3 1 0 BASE
     ''fresh'' = Inl AssertionFailed"
    using a sample_no_space by blast
  have 3: "CreateSharedMemory sample_ops sample_platform sample_kernel (Some 1) 0x02000000 3 1 0
     BASE ''fresh'' = Inl AssertionFailed"
    using a sample_no_space by blast
  have 4: "processes sample_kernel_allocated = processes sample_kernel"
    using c create_fresh_no_owner by blast
  have 5: "CreateSharedMemory sample_ops sample_platform sample_kernel (Some 1) 0x1000 3 1 0 BASE
     ''fresh'' =
     Inr (Inr (sample_fresh\<lparr>owner_process := None\<rparr>\<lparr>owner_process := Some 1\<rparr>),
          sample_kernel_allocated\<lparr>processes := (processes sample_kernel_allocated)
            (1 := (processes sample_kernel_allocated 1)\<lparr>memory_used :=
                    memory_used (processes sample_kernel_allocated 1) + 0x1000\<rparr>)\<rparr>)"
    using c create_fresh_no_owner by blast
  show ?thesis
    using z 1 sample_no_space 2 3 create_fresh_no_owner 4 5 by blast
qed

end
